theory Spec2Isabelle
  imports Main "HOL-Library.Sublist"
begin

section \<open>JavaScript values used by the handlers\<close>

text \<open>
  Request fields, environment variables and nullable document fields are optional
  strings: \<open>None\<close> stands for \<^verbatim>\<open>undefined\<close>/\<^verbatim>\<open>null\<close>. The handlers test them with
  \<^verbatim>\<open>!x\<close>, which is true for a missing value and for the empty string.
\<close>

definition truthy :: "string option \<Rightarrow> bool" where
  "truthy v = (case v of None \<Rightarrow> False | Some s \<Rightarrow> s \<noteq> [])"

text \<open>The string held by a value already known to be truthy.\<close>

definition string_of :: "string option \<Rightarrow> string" where
  "string_of v = (case v of None \<Rightarrow> [] | Some s \<Rightarrow> s)"

text \<open>\<^verbatim>\<open>a || b\<close> on optional strings.\<close>

definition js_or :: "string option \<Rightarrow> string option \<Rightarrow> string option" where
  "js_or a b = (if truthy a then a else b)"

text \<open>\<^verbatim>\<open>s.startsWith(sub)\<close> and \<^verbatim>\<open>s.includes(sub)\<close>: a case-sensitive search for
  \<open>sub\<close> at every position of \<open>s\<close>, from the left.\<close>

definition startsWith :: "string \<Rightarrow> string \<Rightarrow> bool" where
  "startsWith s sub = (take (length sub) s = sub)"

fun js_includes :: "string \<Rightarrow> string \<Rightarrow> bool" where
  "js_includes [] sub = (sub = [])"
| "js_includes (c # cs) sub = (startsWith (c # cs) sub \<or> js_includes cs sub)"

section \<open>Model Gateway: services/imageGenerationService.js\<close>

text \<open>
  The provider SDK is outside the repository. The environment record holds what the
  service reads from it: the API key of \<^verbatim>\<open>process.env\<close>, whether
  \<^verbatim>\<open>getGenerativeModel\<close> throws for a model name (\<open>Some msg\<close>) and what
  \<^verbatim>\<open>generateContent\<close> followed by \<^verbatim>\<open>response.text()\<close> yields for a model and a
  list of parts: \<open>Inl msg\<close> is a thrown error with that message, \<open>Inr t\<close> the text.
  The record also holds the values of \<^verbatim>\<open>uuidv4()\<close>, \<^verbatim>\<open>new Date()\<close> and
  \<^verbatim>\<open>listCollections()\<close> seen by one request.
\<close>

datatype part = TextPart string | InlineDataPart string string

record env =
  GEMINI_API_KEY :: "string option"
  getGenerativeModel :: "string \<Rightarrow> string option"
  generateContent :: "string \<Rightarrow> part list \<Rightarrow> string + string"
  uuidv4 :: string
  now :: string
  listCollections :: "string list"

record inlineData =
  data :: string
  mimeType :: string

text \<open>The object a service method resolves to: \<^verbatim>\<open>success: true\<close> with images, message
  and geminiResponse, or \<^verbatim>\<open>success: false\<close> with error, errorType and suggestion.\<close>

datatype generation_result =
    GenSuccess "inlineData list" string string
  | GenFailure string string "string option"

definition modelPriority :: "string \<Rightarrow> string list" where
  "modelPriority task =
     (if task = ''image''
      then [''gemini-2.0-flash-preview-image-generation'', ''gemini-1.5-flash'',
            ''gemini-1.5-pro'', ''gemini-pro'']
      else [''gemini-1.5-flash'', ''gemini-1.5-pro'', ''gemini-pro''])"

fun firstConstructible :: "(string \<Rightarrow> string option) \<Rightarrow> string list \<Rightarrow> string" where
  "firstConstructible ctor [] = ''gemini-pro''"
| "firstConstructible ctor (m # ms) =
     (case ctor m of None \<Rightarrow> m | Some _ \<Rightarrow> firstConstructible ctor ms)"

definition getBestAvailableModel :: "env \<Rightarrow> string \<Rightarrow> string" where
  "getBestAvailableModel e task = firstConstructible (getGenerativeModel e) (modelPriority task)"

text \<open>The \<^verbatim>\<open>catch\<close> block of \<^verbatim>\<open>generateImage\<close>, applied to \<^verbatim>\<open>error.message\<close>.\<close>

definition catch_generateImage :: "string \<Rightarrow> generation_result" where
  "catch_generateImage msg =
     (if js_includes msg ''429'' \<or> js_includes msg ''quota''
      then GenFailure
             (''Quota exceeded: '' @ msg @ ''. Please check your billing and quota limits.'')
             ''QUOTA_EXCEEDED''
             (Some ''Please set up billing in Google AI Studio or wait for quota reset.'')
      else if js_includes msg ''404'' \<or> js_includes msg ''not found''
      then GenFailure (''Model not found: '' @ msg) ''MODEL_NOT_FOUND''
             (Some ''Please check available models or contact support.'')
      else GenFailure (''Image generation failed: '' @ msg) ''UNKNOWN_ERROR'' None)"

text \<open>The \<^verbatim>\<open>catch\<close> block of \<^verbatim>\<open>generateImageFromText\<close>.\<close>

definition catch_generateImageFromText :: "string \<Rightarrow> generation_result" where
  "catch_generateImageFromText msg =
     (if js_includes msg ''429'' \<or> js_includes msg ''quota''
      then GenFailure
             (''Quota exceeded: '' @ msg @ ''. Please check your billing and quota limits.'')
             ''QUOTA_EXCEEDED''
             (Some ''Please set up billing in Google AI Studio or wait for quota reset.'')
      else if js_includes msg ''404'' \<or> js_includes msg ''not found''
      then GenFailure (''Model not found: '' @ msg) ''MODEL_NOT_FOUND''
             (Some ''Please check available models or contact support.'')
      else GenFailure (''Text-to-image generation failed: '' @ msg) ''UNKNOWN_ERROR'' None)"

text \<open>The \<^verbatim>\<open>try\<close> block of \<^verbatim>\<open>generateImage\<close> up to \<^verbatim>\<open>response.text()\<close>: \<open>Inl\<close> is the
  message of the error thrown, \<open>Inr\<close> the provider's text.\<close>

definition try_generateImage :: "env \<Rightarrow> string \<Rightarrow> string \<Rightarrow> string \<Rightarrow> string + string" where
  "try_generateImage e promptText referenceImageBase64 mt =
     (if \<not> truthy (GEMINI_API_KEY e)
      then Inl ''GEMINI_API_KEY is not set in environment variables''
      else
        let modelName = getBestAvailableModel e ''image'' in
        (case getGenerativeModel e modelName of
           Some msg \<Rightarrow> Inl msg
         | None \<Rightarrow>
             generateContent e modelName
               [TextPart (''Generate an image based on this prompt: '' @ [CHR 0x22] @ promptText
                          @ [CHR 0x22]
                          @ ''. Use the provided reference image as a style guide or inspiration.''),
                InlineDataPart referenceImageBase64 mt]))"

definition ImageGenerationService_generateImage ::
  "env \<Rightarrow> string \<Rightarrow> string \<Rightarrow> string \<Rightarrow> generation_result" where
  "ImageGenerationService_generateImage e promptText referenceImageBase64 mt =
     (case try_generateImage e promptText referenceImageBase64 mt of
        Inl msg \<Rightarrow> catch_generateImage msg
      | Inr txt \<Rightarrow>
          GenSuccess [\<lparr>data = referenceImageBase64, mimeType = mt\<rparr>]
            ''Image processed with Gemini AI'' txt)"

definition try_generateImageFromText :: "env \<Rightarrow> string \<Rightarrow> string + string" where
  "try_generateImageFromText e promptText =
     (if \<not> truthy (GEMINI_API_KEY e)
      then Inl ''GEMINI_API_KEY is not set in environment variables''
      else
        let modelName = getBestAvailableModel e ''text'' in
        (case getGenerativeModel e modelName of
           Some msg \<Rightarrow> Inl msg
         | None \<Rightarrow>
             generateContent e modelName
               [TextPart (''Generate an image based on this prompt: '' @ [CHR 0x22] @ promptText
                          @ [CHR 0x22]
                          @ ''. Create a detailed description of what the image should look like.'')]))"

definition ImageGenerationService_generateImageFromText :: "env \<Rightarrow> string \<Rightarrow> generation_result" where
  "ImageGenerationService_generateImageFromText e promptText =
     (case try_generateImageFromText e promptText of
        Inl msg \<Rightarrow> catch_generateImageFromText msg
      | Inr txt \<Rightarrow>
          GenSuccess [\<lparr>data = ''text-generated-description'', mimeType = ''text/plain''\<rparr>]
            ''Text-to-image description generated with Gemini AI'' txt)"

text \<open>The \<^verbatim>\<open>errorType\<close> of a result (\<open>None\<close> on success, where the field is absent).\<close>

definition errorType :: "generation_result \<Rightarrow> string option" where
  "errorType r = (case r of GenSuccess _ _ _ \<Rightarrow> None | GenFailure _ t _ \<Rightarrow> Some t)"

section \<open>Artifact Store: config/database.js\<close>

text \<open>
  A document of either collection. \<open>id_field\<close>, \<open>size_field\<close> and \<open>type_field\<close> are the
  source's \<^verbatim>\<open>_id\<close>, \<^verbatim>\<open>size\<close> and \<^verbatim>\<open>type\<close>. Fields that only one kind of document has
  (or that may hold \<^verbatim>\<open>null\<close>) are optional.
\<close>

record document =
  id_field :: string
  promptId :: "string option"
  promptName :: string
  prompt :: string
  base64Image :: string
  originalName :: string
  size_field :: nat
  mimetype :: string
  uploadedAt :: "string option"
  createdAt :: string
  updatedAt :: "string option"
  type_field :: "string option"

text \<open>One entry of the log of calls made to the Model Gateway.\<close>

datatype gateway_call =
    GenerateImageCall string string string
  | GenerateImageFromTextCall string

text \<open>
  The state a request runs against: whether the module-level handle \<^verbatim>\<open>db\<close> is set, the
  two collections in the order \<^verbatim>\<open>find().toArray()\<close> returns them (insertion order), and
  the calls made to the gateway so far.
\<close>

record world =
  db_connected :: bool
  images :: "document list"
  generated_images :: "document list"
  gateway_calls :: "gateway_call list"

datatype collection = Images | Generated_images

text \<open>The three filters the handlers use: \<^verbatim>\<open>{}\<close>, \<^verbatim>\<open>{ promptId: p }\<close>, \<^verbatim>\<open>{ _id: i }\<close>.\<close>

datatype query = Everything | ByPromptId string | ById string

definition getDB :: "world \<Rightarrow> string + unit" where
  "getDB w = (if \<not> db_connected w then Inl ''Database not connected. Call connectDB() first.''
              else Inr ())"

definition collection_docs :: "collection \<Rightarrow> world \<Rightarrow> document list" where
  "collection_docs c w = (case c of Images \<Rightarrow> images w | Generated_images \<Rightarrow> generated_images w)"

definition matches :: "query \<Rightarrow> document \<Rightarrow> bool" where
  "matches q d =
     (case q of Everything \<Rightarrow> True
      | ByPromptId p \<Rightarrow> promptId d = Some p
      | ById i \<Rightarrow> id_field d = i)"

definition readDB :: "collection \<Rightarrow> query \<Rightarrow> world \<Rightarrow> string + document list" where
  "readDB c q w =
     (case getDB w of Inl msg \<Rightarrow> Inl msg
      | Inr _ \<Rightarrow> Inr (filter (matches q) (collection_docs c w)))"

text \<open>
  \<^verbatim>\<open>insertOne\<close>: the store keeps \<^verbatim>\<open>_id\<close> unique within a collection and rejects a
  document whose \<^verbatim>\<open>_id\<close> is taken; otherwise the document is appended.
\<close>

definition insertOne :: "collection \<Rightarrow> document \<Rightarrow> world \<Rightarrow> string + world" where
  "insertOne c d w =
     (if list_ex (\<lambda>x. id_field x = id_field d) (collection_docs c w)
      then Inl ''E11000 duplicate key error''
      else Inr (case c of
                  Images \<Rightarrow> w\<lparr>images := images w @ [d]\<rparr>
                | Generated_images \<Rightarrow> w\<lparr>generated_images := generated_images w @ [d]\<rparr>))"

definition writeDB :: "collection \<Rightarrow> document \<Rightarrow> world \<Rightarrow> string + world" where
  "writeDB c d w = (case getDB w of Inl msg \<Rightarrow> Inl msg | Inr _ \<Rightarrow> insertOne c d w)"

section \<open>Requests and responses\<close>

text \<open>A file held in memory by the multipart middleware of the generation routes:
  \<open>buffer_base64\<close> is \<^verbatim>\<open>file.buffer.toString('base64')\<close>.\<close>

record memory_file =
  buffer_base64 :: string
  mem_mimetype :: "string option"

record gen_body =
  body_promptId :: "string option"
  body_promptid :: "string option"
  body_referenceImage :: "string option"
  body_mimeType :: "string option"

record gen_request =
  content_type :: "string option"
  body :: gen_body
  files :: "memory_file list"

record text_request =
  body_prompt :: "string option"

record prompt_entry =
  entry_id :: string
  entry_promptName :: string
  entry_prompt :: string
  entry_createdAt :: string

datatype payload =
    NoPayload
  | Received gen_body
  | NotFoundDebug (searchedFor: string) (totalImages: nat) (collections: "string list")
      (sampleImage: "(string option \<times> string) option")
  | GenerateData (imageId: string) (data_promptId: string) (data_promptName: string)
      (data_base64Image: string) (data_createdAt: string)
  | GenerateTextData (imageId: string) (data_prompt: string) (data_base64Image: string)
      (data_createdAt: string)
  | PromptsData (entries: "prompt_entry list")
  | UploadData (data_id: string) string string string string nat string string
  | ImageData (data_id: string) "string option" string string (image_base64Image: string)
      string nat string "string option"

text \<open>
  What \<^verbatim>\<open>res.status(c).json(obj)\<close> sends: the status, the \<^verbatim>\<open>success\<close> and
  \<^verbatim>\<open>message\<close> fields, the \<^verbatim>\<open>error\<close> field when the object has one, and the rest of
  the object (\<^verbatim>\<open>data\<close>, \<^verbatim>\<open>debug\<close> or \<^verbatim>\<open>received\<close>).
\<close>

record response =
  status :: nat
  success :: bool
  message :: string
  error :: "string option"
  payload :: payload

section \<open>Generation Orchestrator: the generation controller\<close>

text \<open>The first lines of \<^verbatim>\<open>generateImage\<close>: promptId, referenceImage and mimeType, read
  from a JSON body or from form data with an optional file.\<close>

definition is_json :: "gen_request \<Rightarrow> bool" where
  "is_json req =
     (case content_type req of None \<Rightarrow> False
      | Some ct \<Rightarrow> ct \<noteq> [] \<and> js_includes ct ''application/json'')"

definition or_default :: "string option \<Rightarrow> string \<Rightarrow> string" where
  "or_default v d = (case v of None \<Rightarrow> d | Some s \<Rightarrow> if s = [] then d else s)"

definition request_inputs :: "gen_request \<Rightarrow> string option \<times> string option \<times> string" where
  "request_inputs req =
     (if is_json req
      then (body_promptId (body req), body_referenceImage (body req),
            (case body_mimeType (body req) of None \<Rightarrow> ''image/jpeg'' | Some m \<Rightarrow> m))
      else
        let pid = js_or (body_promptId (body req)) (body_promptid (body req));
            mt = or_default (body_mimeType (body req)) ''image/jpeg''
        in (case files req of
              f # _ \<Rightarrow> (pid, Some (buffer_base64 f), or_default (mem_mimetype f) mt)
            | [] \<Rightarrow> (pid, body_referenceImage (body req), mt)))"

text \<open>The outer \<^verbatim>\<open>catch\<close> of a generation handler: status 500 with \<^verbatim>\<open>error.message\<close>.\<close>

definition internal_error :: "string \<Rightarrow> response" where
  "internal_error msg =
     \<lparr>status = 500, success = False, message = ''Internal server error'',
      error = Some msg, payload = NoPayload\<rparr>"

definition generation_failed :: "string \<Rightarrow> response" where
  "generation_failed err =
     \<lparr>status = 500, success = False, message = ''Image generation failed'',
      error = Some err, payload = NoPayload\<rparr>"

definition sample_of :: "document list \<Rightarrow> (string option \<times> string) option" where
  "sample_of allImages =
     (case allImages of [] \<Rightarrow> None | d # _ \<Rightarrow> Some (promptId d, promptName d))"

text \<open>The part of \<^verbatim>\<open>generateImage\<close> after the gateway call returned an image: build the
  document, insert it, answer 200.\<close>

definition save_generated ::
  "env \<Rightarrow> string \<Rightarrow> string \<Rightarrow> string \<Rightarrow> inlineData \<Rightarrow> world \<Rightarrow> response \<times> world" where
  "save_generated e pid pname ptext img w =
     (let imageData =
            \<lparr>id_field = uuidv4 e, promptId = Some pid, promptName = pname, prompt = ptext,
             base64Image = data img, originalName = ''ai-generated-image.jpg'',
             size_field = length (data img), mimetype = ''image/jpeg'',
             uploadedAt = None, createdAt = now e, updatedAt = None,
             type_field = Some ''generated''\<rparr>
      in case writeDB Generated_images imageData w of
           Inl msg \<Rightarrow> (internal_error msg, w)
         | Inr w' \<Rightarrow>
             (\<lparr>status = 200, success = True, message = ''Image generated successfully'',
               error = None,
               payload = GenerateData (id_field imageData) pid pname (base64Image imageData)
                           (createdAt imageData)\<rparr>, w'))"

definition generateImage :: "env \<Rightarrow> gen_request \<Rightarrow> world \<Rightarrow> response \<times> world" where
  "generateImage e req w =
     (case request_inputs req of (pidv, refv, mt) \<Rightarrow>
        if \<not> truthy pidv
        then (\<lparr>status = 400, success = False, message = ''promptId is required'',
               error = None, payload = Received (body req)\<rparr>, w)
        else if \<not> truthy refv
        then (\<lparr>status = 400, success = False, message = ''referenceImage is required'',
               error = None, payload = NoPayload\<rparr>, w)
        else
          let pid = string_of pidv; referenceImage = string_of refv in
          (case getDB w of Inl msg \<Rightarrow> (internal_error msg, w)
           | Inr _ \<Rightarrow>
          (case readDB Images (ByPromptId pid) w of Inl msg \<Rightarrow> (internal_error msg, w)
           | Inr existingImages \<Rightarrow>
          (case existingImages of
             [] \<Rightarrow>
               (case readDB Images Everything w of Inl msg \<Rightarrow> (internal_error msg, w)
                | Inr allImages \<Rightarrow>
                    (\<lparr>status = 404, success = False,
                      message = ''No prompt found with the provided promptId'',
                      error = None,
                      payload = NotFoundDebug pid (length allImages) (listCollections e)
                                  (sample_of allImages)\<rparr>, w))
           | promptData # _ \<Rightarrow>
               let promptText = prompt promptData;
                   pname = promptName promptData;
                   imageResult = ImageGenerationService_generateImage e promptText referenceImage mt;
                   w1 = w\<lparr>gateway_calls :=
                           gateway_calls w @ [GenerateImageCall promptText referenceImage mt]\<rparr>
               in (case imageResult of
                     GenFailure err _ _ \<Rightarrow> (generation_failed err, w1)
                   | GenSuccess imgs _ _ \<Rightarrow>
                       (case imgs of
                          [] \<Rightarrow> (internal_error ''Cannot read properties of undefined'', w1)
                        | img # _ \<Rightarrow> save_generated e pid pname promptText img w1))))))"

text \<open>The same for \<^verbatim>\<open>generateImageFromText\<close>: \<^verbatim>\<open>promptId\<close> is \<^verbatim>\<open>null\<close>.\<close>

definition save_text_generated ::
  "env \<Rightarrow> string \<Rightarrow> inlineData \<Rightarrow> world \<Rightarrow> response \<times> world" where
  "save_text_generated e ptext img w =
     (let imageData =
            \<lparr>id_field = uuidv4 e, promptId = None, promptName = ''Text Prompt'', prompt = ptext,
             base64Image = data img, originalName = ''ai-text-generated-image.jpg'',
             size_field = length (data img), mimetype = ''image/jpeg'',
             uploadedAt = None, createdAt = now e, updatedAt = None,
             type_field = Some ''generated''\<rparr>
      in case writeDB Generated_images imageData w of
           Inl msg \<Rightarrow> (internal_error msg, w)
         | Inr w' \<Rightarrow>
             (\<lparr>status = 200, success = True,
               message = ''Image generated successfully from text'', error = None,
               payload = GenerateTextData (id_field imageData) ptext (base64Image imageData)
                           (createdAt imageData)\<rparr>, w'))"

definition generateImageFromText :: "env \<Rightarrow> text_request \<Rightarrow> world \<Rightarrow> response \<times> world" where
  "generateImageFromText e req w =
     (if \<not> truthy (body_prompt req)
      then (\<lparr>status = 400, success = False, message = ''prompt is required'',
             error = None, payload = NoPayload\<rparr>, w)
      else
        let ptext = string_of (body_prompt req);
            imageResult = ImageGenerationService_generateImageFromText e ptext;
            w1 = w\<lparr>gateway_calls := gateway_calls w @ [GenerateImageFromTextCall ptext]\<rparr>
        in (case imageResult of
              GenFailure err _ _ \<Rightarrow> (generation_failed err, w1)
            | GenSuccess imgs _ _ \<Rightarrow>
                (case imgs of
                   [] \<Rightarrow> (internal_error ''Cannot read properties of undefined'', w1)
                 | img # _ \<Rightarrow> save_text_generated e ptext img w1)))"

text \<open>
  \<^verbatim>\<open>getPrompts\<close>: the body of the \<^verbatim>\<open>forEach\<close> callback, on the pair of the array
  \<^verbatim>\<open>uniquePrompts\<close> and the set \<^verbatim>\<open>seenPrompts\<close>, then the loop and the handler.
\<close>

definition getPrompts_step ::
  "document \<Rightarrow> prompt_entry list \<times> string set \<Rightarrow> prompt_entry list \<times> string set" where
  "getPrompts_step img st =
     (case st of (uniquePrompts, seenPrompts) \<Rightarrow>
        if truthy (promptId img) \<and> string_of (promptId img) \<notin> seenPrompts
        then (uniquePrompts @
                [\<lparr>entry_id = string_of (promptId img), entry_promptName = promptName img,
                  entry_prompt = prompt img, entry_createdAt = createdAt img\<rparr>],
              insert (string_of (promptId img)) seenPrompts)
        else (uniquePrompts, seenPrompts))"

definition uniquePrompts_of :: "document list \<Rightarrow> prompt_entry list" where
  "uniquePrompts_of imgs = fst (fold getPrompts_step imgs ([], {}))"

definition getPrompts :: "world \<Rightarrow> response" where
  "getPrompts w =
     (case readDB Images Everything w of
        Inl msg \<Rightarrow>
          \<lparr>status = 500, success = False, message = ''Failed to fetch prompts'',
           error = Some msg, payload = NoPayload\<rparr>
      | Inr imgs \<Rightarrow>
          \<lparr>status = 200, success = True, message = ''Prompts retrieved successfully'',
           error = None, payload = PromptsData (uniquePrompts_of imgs)\<rparr>)"

section \<open>The upload controller: controllers/uploadImage&promts.js\<close>

text \<open>
  An error thrown by the file system calls, with its \<^verbatim>\<open>code\<close> and \<^verbatim>\<open>message\<close>. A file
  stored on disk by the upload middleware: \<open>readFileSync\<close> is the outcome of reading it
  and encoding the bytes as base64, \<open>unlinkSync\<close> the outcome of deleting it.
\<close>

record js_error =
  code :: "string option"
  err_message :: string

record disk_file =
  readFileSync :: "js_error + string"
  unlinkSync :: "js_error option"
  originalname :: string
  file_size :: nat
  file_mimetype :: string

record upload_request =
  up_promptId :: "string option"
  up_promptName :: "string option"
  up_prompt :: "string option"
  up_aiImage :: "string option"
  up_file :: "disk_file option"

text \<open>The outer \<^verbatim>\<open>catch\<close> of \<^verbatim>\<open>uploadImage\<close>.\<close>

definition catch_uploadImage :: "js_error \<Rightarrow> response" where
  "catch_uploadImage err =
     (if code err = Some ''LIMIT_FILE_SIZE''
      then \<lparr>status = 400, success = False, message = ''File too large. Maximum size is 10MB'',
            error = Some ''FILE_SIZE_ERROR'', payload = NoPayload\<rparr>
      else if js_includes (err_message err) ''Only image files''
      then \<lparr>status = 400, success = False, message = err_message err,
            error = Some ''INVALID_FILE_TYPE'', payload = NoPayload\<rparr>
      else \<lparr>status = 500, success = False, message = ''Internal server error during upload'',
            error = Some ''UPLOAD_ERROR'', payload = NoPayload\<rparr>)"

text \<open>The values of \<^verbatim>\<open>base64DataUrl\<close>, \<^verbatim>\<open>originalName\<close>, \<^verbatim>\<open>size\<close> and \<^verbatim>\<open>mimetype\<close> after
  the file branch; \<open>Inl\<close> is the response of an early return.\<close>

definition upload_source :: "upload_request \<Rightarrow> response + (string \<times> string \<times> nat \<times> string)" where
  "upload_source req =
     (case up_file req of
        Some f \<Rightarrow>
          (case readFileSync f of
             Inl err \<Rightarrow> Inl (catch_uploadImage err)
           | Inr base64ImageData \<Rightarrow>
               (case unlinkSync f of
                  Some err \<Rightarrow> Inl (catch_uploadImage err)
                | None \<Rightarrow>
                    Inr (''data:'' @ file_mimetype f @ '';base64,'' @ base64ImageData,
                         originalname f, file_size f, file_mimetype f)))
      | None \<Rightarrow>
          if \<not> truthy (up_aiImage req)
          then Inl \<lparr>status = 400, success = False,
                    message = ''No image data provided (either file upload or base64)'',
                    error = Some ''NO_IMAGE_ERROR'', payload = NoPayload\<rparr>
          else Inr (string_of (up_aiImage req), ''uploaded-image'', 0, ''image/jpeg''))"

definition uploadImage :: "env \<Rightarrow> upload_request \<Rightarrow> world \<Rightarrow> response \<times> world" where
  "uploadImage e req w =
     (if \<not> truthy (up_promptId req) \<or> \<not> truthy (up_promptName req) \<or> \<not> truthy (up_prompt req)
      then (\<lparr>status = 400, success = False,
             message = ''Missing required fields: promptId, promptName, and prompt are required'',
             error = Some ''VALIDATION_ERROR'', payload = NoPayload\<rparr>, w)
      else
        (case upload_source req of
           Inl r \<Rightarrow> (r, w)
         | Inr (base64DataUrl, oname, sz, mt) \<Rightarrow>
             let imageData =
                   \<lparr>id_field = uuidv4 e, promptId = up_promptId req,
                    promptName = string_of (up_promptName req),
                    prompt = string_of (up_prompt req), base64Image = base64DataUrl,
                    originalName = oname, size_field = sz, mimetype = mt,
                    uploadedAt = Some (now e), createdAt = now e, updatedAt = Some (now e),
                    type_field = None\<rparr>
             in (case writeDB Images imageData w of
                   Inl _ \<Rightarrow>
                     (\<lparr>status = 500, success = False,
                       message = ''Failed to save image to database'',
                       error = Some ''DATABASE_SAVE_ERROR'', payload = NoPayload\<rparr>, w)
                 | Inr w' \<Rightarrow>
                     (\<lparr>status = 201, success = True,
                       message = ''Image uploaded and converted to base64 successfully'',
                       error = None,
                       payload = UploadData (id_field imageData) (string_of (promptId imageData))
                                   (promptName imageData) (prompt imageData)
                                   (originalName imageData) (size_field imageData)
                                   (mimetype imageData) (now e)\<rparr>, w'))))"

definition getImageById :: "string \<Rightarrow> world \<Rightarrow> response" where
  "getImageById i w =
     (case readDB Images (ById i) w of
        Inl _ \<Rightarrow>
          \<lparr>status = 500, success = False, message = ''Error retrieving image'',
           error = Some ''RETRIEVE_ERROR'', payload = NoPayload\<rparr>
      | Inr imgs \<Rightarrow>
          (case imgs of
             [] \<Rightarrow>
               \<lparr>status = 404, success = False, message = ''Image not found'',
                error = Some ''NOT_FOUND'', payload = NoPayload\<rparr>
           | img # _ \<Rightarrow>
               \<lparr>status = 200, success = True, message = ''Image retrieved successfully'',
                error = None,
                payload = ImageData (id_field img) (promptId img) (promptName img)
                            (prompt img) (base64Image img) (originalName img)
                            (size_field img) (mimetype img) (uploadedAt img)\<rparr>))"

section \<open>The classification in the words of the specification\<close>

text \<open>
  The failure kind as the specification words it, on the mathematical notion of a
  contiguous substring (\<open>sublist\<close>): QuotaExceeded when the message contains "429" or
  "quota", ModelNotFound when it contains "404" or "not found", Unknown otherwise.
\<close>

definition spec_failure_kind :: "string \<Rightarrow> string" where
  "spec_failure_kind msg =
     (if sublist ''429'' msg \<or> sublist ''quota'' msg then ''QUOTA_EXCEEDED''
      else if sublist ''404'' msg \<or> sublist ''not found'' msg then ''MODEL_NOT_FOUND''
      else ''UNKNOWN_ERROR'')"

section \<open>Concrete environments, stores and requests\<close>

text \<open>A provider that answers every request with a text, and one that throws \<open>msg\<close>.\<close>

definition ok_env :: env where
  "ok_env =
     \<lparr>GEMINI_API_KEY = Some ''key'', getGenerativeModel = (\<lambda>_. None),
      generateContent = (\<lambda>_ _. Inr ''A warm sunset behind dark peaks.''), uuidv4 = ''gen-1'',
      now = ''2024-01-01T00:00:00.000Z'', listCollections = [''images'', ''generated_images'']\<rparr>"

definition failing_env :: "string \<Rightarrow> env" where
  "failing_env msg =
     \<lparr>GEMINI_API_KEY = Some ''key'', getGenerativeModel = (\<lambda>_. None),
      generateContent = (\<lambda>_ _. Inl msg), uuidv4 = ''gen-1'',
      now = ''2024-01-01T00:00:00.000Z'', listCollections = [''images'', ''generated_images'']\<rparr>"

text \<open>A store with two uploads that share the promptId p1 under different names, and a
  third upload for p2.\<close>

definition upload_doc :: "string \<Rightarrow> string \<Rightarrow> string \<Rightarrow> string \<Rightarrow> document" where
  "upload_doc i pid pname ptext =
     \<lparr>id_field = i, promptId = Some pid, promptName = pname, prompt = ptext,
      base64Image = ''data:image/png;base64,QUJD'', originalName = ''uploaded-image'',
      size_field = 0, mimetype = ''image/jpeg'', uploadedAt = Some ''2023-12-31T00:00:00.000Z'',
      createdAt = ''2023-12-31T00:00:00.000Z'', updatedAt = Some ''2023-12-31T00:00:00.000Z'',
      type_field = None\<rparr>"

definition sunset_world :: world where
  "sunset_world =
     \<lparr>db_connected = True,
      images = [upload_doc ''img-1'' ''p1'' ''Sunset'' ''a sunset over mountains'',
                upload_doc ''img-2'' ''p1'' ''Sunrise'' ''a sunrise over the sea'',
                upload_doc ''img-3'' ''p2'' ''Forest'' ''a misty forest''],
      generated_images = [], gateway_calls = []\<rparr>"

definition json_request :: "string option \<Rightarrow> string option \<Rightarrow> gen_request" where
  "json_request pid ref =
     \<lparr>content_type = Some ''application/json'',
      body = \<lparr>body_promptId = pid, body_promptid = None, body_referenceImage = ref,
              body_mimeType = None\<rparr>,
      files = []\<rparr>"

definition text_request_of :: "string option \<Rightarrow> text_request" where
  "text_request_of p = \<lparr>body_prompt = p\<rparr>"

section \<open>First-seen order, for the list of prompts\<close>

text \<open>
  The promptIds of the scanned records in scan order, leaving out the absent and the
  empty ones; \<open>first_seen\<close> keeps each element of a list once, at the place of its first
  occurrence (see \<open>first_seen_Cons\<close> below); \<open>first_record_of\<close> says that an entry carries
  the name, text and creation time of the first scanned record with the entry's id.
\<close>

definition scanned_promptIds :: "document list \<Rightarrow> string list" where
  "scanned_promptIds imgs =
     map (\<lambda>d. string_of (promptId d)) (filter (\<lambda>d. truthy (promptId d)) imgs)"

definition first_seen :: "'a list \<Rightarrow> 'a list" where
  "first_seen xs = rev (remdups (rev xs))"

definition first_record_of :: "document list \<Rightarrow> prompt_entry \<Rightarrow> bool" where
  "first_record_of imgs e =
     (case find (\<lambda>d. promptId d = Some (entry_id e)) imgs of
        None \<Rightarrow> False
      | Some d \<Rightarrow> entry_promptName e = promptName d \<and> entry_prompt e = prompt d \<and>
                  entry_createdAt e = createdAt d)"

text \<open>An upload of a file the middleware stored on disk, and of no prompt text.\<close>

definition file_upload :: upload_request where
  "file_upload =
     \<lparr>up_promptId = Some ''p3'', up_promptName = Some ''Harbour'',
      up_prompt = Some ''a harbour at dawn'', up_aiImage = None,
      up_file = Some \<lparr>readFileSync = Inr ''SGFyYm91cg=='', unlinkSync = None,
                       originalname = ''harbour.png'', file_size = 7,
                       file_mimetype = ''image/png''\<rparr>\<rparr>"

section \<open>Properties of the store and of the handlers\<close>

subsection \<open>Failure classification of the gateway\<close>

lemma startsWith_prefix: "startsWith s sub = prefix sub s"
  unfolding startsWith_def prefix_def
  by (metis append_eq_conv_conj append_take_drop_id)

lemma js_includes_sublist: "js_includes s sub = sublist sub s"
  by (induction s) (simp_all add: startsWith_prefix sublist_Cons_right)

lemma errorType_catch_generateImage:
  "errorType (catch_generateImage msg) = Some (spec_failure_kind msg)"
  by (simp add: catch_generateImage_def spec_failure_kind_def errorType_def js_includes_sublist)

lemma errorType_catch_generateImageFromText:
  "errorType (catch_generateImageFromText msg) = Some (spec_failure_kind msg)"
  by (simp add: catch_generateImageFromText_def spec_failure_kind_def errorType_def
      js_includes_sublist)

text \<open>
  Claim C4. When the provider call of either service method throws an error with message
  \<open>msg\<close>, the result's errorType is the kind the specification gives: QUOTA_EXCEEDED if
  \<open>msg\<close> contains "429" or "quota"; otherwise MODEL_NOT_FOUND if it contains "404" or
  "not found"; otherwise UNKNOWN_ERROR.
\<close>

theorem C4_failure_classification:
  "(try_generateImage e p r m = Inl msg \<longrightarrow>
      errorType (ImageGenerationService_generateImage e p r m) = Some (spec_failure_kind msg)) \<and>
   (try_generateImageFromText e p = Inl msg \<longrightarrow>
      errorType (ImageGenerationService_generateImageFromText e p) = Some (spec_failure_kind msg)) \<and>
   (sublist ''429'' msg \<or> sublist ''quota'' msg \<longrightarrow> spec_failure_kind msg = ''QUOTA_EXCEEDED'') \<and>
   (\<not> sublist ''429'' msg \<and> \<not> sublist ''quota'' msg \<and>
      (sublist ''404'' msg \<or> sublist ''not found'' msg) \<longrightarrow>
        spec_failure_kind msg = ''MODEL_NOT_FOUND'') \<and>
   (\<not> sublist ''429'' msg \<and> \<not> sublist ''quota'' msg \<and>
      \<not> sublist ''404'' msg \<and> \<not> sublist ''not found'' msg \<longrightarrow>
        spec_failure_kind msg = ''UNKNOWN_ERROR'')"
  by (simp add: ImageGenerationService_generateImage_def
      ImageGenerationService_generateImageFromText_def errorType_catch_generateImage
      errorType_catch_generateImageFromText spec_failure_kind_def)

lemma failing_env_try_generateImage:
  "try_generateImage (failing_env msg) p r m = Inl msg"
  by (simp add: try_generateImage_def failing_env_def truthy_def getBestAvailableModel_def
      modelPriority_def)

lemma failing_env_try_generateImageFromText:
  "try_generateImageFromText (failing_env msg) p = Inl msg"
  by (simp add: try_generateImageFromText_def failing_env_def truthy_def
      getBestAvailableModel_def modelPriority_def)

theorem C4_witness:
  "try_generateImage (failing_env ''[429 Too Many Requests] limit'') ''a cat'' ''QUJD'' ''image/png''
     = Inl ''[429 Too Many Requests] limit'' \<and>
   sublist ''429'' ''[429 Too Many Requests] limit'' \<and>
   errorType (ImageGenerationService_generateImage (failing_env ''[429 Too Many Requests] limit'')
     ''a cat'' ''QUJD'' ''image/png'') = Some ''QUOTA_EXCEEDED'' \<and>
   try_generateImageFromText (failing_env ''model is not found'') ''a cat''
     = Inl ''model is not found'' \<and>
   \<not> sublist ''429'' ''model is not found'' \<and> \<not> sublist ''quota'' ''model is not found'' \<and>
   sublist ''not found'' ''model is not found'' \<and>
   errorType (ImageGenerationService_generateImageFromText (failing_env ''model is not found'')
     ''a cat'') = Some ''MODEL_NOT_FOUND'' \<and>
   \<not> sublist ''429'' ''Not Found'' \<and> \<not> sublist ''quota'' ''Not Found'' \<and>
   \<not> sublist ''404'' ''Not Found'' \<and> \<not> sublist ''not found'' ''Not Found'' \<and>
   errorType (ImageGenerationService_generateImage (failing_env ''Not Found'')
     ''a cat'' ''QUJD'' ''image/png'') = Some ''UNKNOWN_ERROR''"
proof -
  have s1: "sublist ''429'' ''[429 Too Many Requests] limit''"
    by (simp add: js_includes_sublist [symmetric] startsWith_def)
  have s2: "\<not> sublist ''429'' ''model is not found''" "\<not> sublist ''quota'' ''model is not found''"
    "sublist ''not found'' ''model is not found''"
    by (simp_all add: js_includes_sublist [symmetric] startsWith_def)
  have s3: "\<not> sublist ''429'' ''Not Found''" "\<not> sublist ''quota'' ''Not Found''"
    "\<not> sublist ''404'' ''Not Found''" "\<not> sublist ''not found'' ''Not Found''"
    by (simp_all add: js_includes_sublist [symmetric] startsWith_def)
  show ?thesis
    using s1 s2 s3
      C4_failure_classification [of "failing_env ''[429 Too Many Requests] limit''" "''a cat''"
        "''QUJD''" "''image/png''" "''[429 Too Many Requests] limit''"]
      C4_failure_classification [of "failing_env ''model is not found''" "''a cat''"
        "''QUJD''" "''image/png''" "''model is not found''"]
      C4_failure_classification [of "failing_env ''Not Found''" "''a cat''"
        "''QUJD''" "''image/png''" "''Not Found''"]
    by (simp add: failing_env_try_generateImage failing_env_try_generateImageFromText)
qed

subsection \<open>The store and the stages of generateImage\<close>

lemma matches_ByPromptId: "matches (ByPromptId p) = (\<lambda>d. promptId d = Some p)"
  by (rule ext) (simp add: matches_def)

lemma matches_ById: "matches (ById i) = (\<lambda>d. id_field d = i)"
  by (rule ext) (simp add: matches_def)

lemma matches_Everything: "matches Everything = (\<lambda>d. True)"
  by (rule ext) (simp add: matches_def)

lemma readDB_connected:
  "db_connected w \<Longrightarrow> readDB c q w = Inr (filter (matches q) (collection_docs c w))"
  by (simp add: readDB_def getDB_def)

lemma readDB_disconnected:
  "\<not> db_connected w \<Longrightarrow> readDB c q w = Inl ''Database not connected. Call connectDB() first.''"
  by (simp add: readDB_def getDB_def)

lemma generateImage_invalid:
  "\<not> truthy (fst (request_inputs req)) \<or> \<not> truthy (fst (snd (request_inputs req))) \<Longrightarrow>
   status (fst (generateImage e req w)) = 400 \<and> error (fst (generateImage e req w)) = None \<and>
   \<not> success (fst (generateImage e req w)) \<and> snd (generateImage e req w) = w"
  by (cases "request_inputs req") (auto simp: generateImage_def)

lemma generateImage_disconnected:
  "truthy (fst (request_inputs req)) \<Longrightarrow> truthy (fst (snd (request_inputs req))) \<Longrightarrow>
   \<not> db_connected w \<Longrightarrow>
   generateImage e req w =
     (internal_error ''Database not connected. Call connectDB() first.'', w)"
  by (cases "request_inputs req") (auto simp: generateImage_def getDB_def)

lemma generateImage_not_found:
  assumes "truthy (fst (request_inputs req))" "truthy (fst (snd (request_inputs req)))"
    and "db_connected w"
    and "filter (\<lambda>d. promptId d = fst (request_inputs req)) (images w) = []"
  shows "generateImage e req w =
     (\<lparr>status = 404, success = False,
       message = ''No prompt found with the provided promptId'', error = None,
       payload = NotFoundDebug (string_of (fst (request_inputs req))) (length (images w))
                   (listCollections e) (sample_of (images w))\<rparr>, w)"
proof -
  obtain pidv refv mt where ri: "request_inputs req = (pidv, refv, mt)"
    by (cases "request_inputs req") auto
  from assms(1) ri obtain pid where pid: "pidv = Some pid"
    by (auto simp: truthy_def split: option.splits)
  show ?thesis
    using assms ri pid
    by (simp add: generateImage_def readDB_connected getDB_def collection_docs_def
        matches_ByPromptId matches_Everything string_of_def)
qed

lemma generateImage_found:
  assumes "truthy (fst (request_inputs req))" "truthy (fst (snd (request_inputs req)))"
    and "db_connected w"
    and "filter (\<lambda>d. promptId d = fst (request_inputs req)) (images w) = promptData # rest"
  shows "generateImage e req w =
     (let pid = string_of (fst (request_inputs req));
          referenceImage = string_of (fst (snd (request_inputs req)));
          mt = snd (snd (request_inputs req));
          w1 = w\<lparr>gateway_calls := gateway_calls w @
                    [GenerateImageCall (prompt promptData) referenceImage mt]\<rparr>
      in case ImageGenerationService_generateImage e (prompt promptData) referenceImage mt of
           GenFailure err _ _ \<Rightarrow> (generation_failed err, w1)
         | GenSuccess imgs _ _ \<Rightarrow>
             (case imgs of
                [] \<Rightarrow> (internal_error ''Cannot read properties of undefined'', w1)
              | img # _ \<Rightarrow>
                  save_generated e pid (promptName promptData) (prompt promptData) img w1))"
proof -
  obtain pidv refv mt where ri: "request_inputs req = (pidv, refv, mt)"
    by (cases "request_inputs req") auto
  from assms(1) ri obtain pid where pid: "pidv = Some pid"
    by (auto simp: truthy_def split: option.splits)
  show ?thesis
    using assms ri pid
    by (simp add: generateImage_def readDB_connected getDB_def collection_docs_def
        matches_ByPromptId string_of_def Let_def)
qed

lemma service_generateImage_success:
  "ImageGenerationService_generateImage e p ref mt = GenSuccess imgs m t \<Longrightarrow>
   imgs = [\<lparr>data = ref, mimeType = mt\<rparr>] \<and> try_generateImage e p ref mt = Inr t"
  by (auto simp: ImageGenerationService_generateImage_def catch_generateImage_def
      split: sum.splits if_splits)

lemma save_generated_cases:
  "save_generated e pid pname ptext img w =
     (if \<not> db_connected w
      then (internal_error ''Database not connected. Call connectDB() first.'', w)
      else if list_ex (\<lambda>x. id_field x = uuidv4 e) (generated_images w)
      then (internal_error ''E11000 duplicate key error'', w)
      else (\<lparr>status = 200, success = True, message = ''Image generated successfully'',
              error = None,
              payload = GenerateData (uuidv4 e) pid pname (data img) (now e)\<rparr>,
            w\<lparr>generated_images := generated_images w @
                 [\<lparr>id_field = uuidv4 e, promptId = Some pid, promptName = pname, prompt = ptext,
                   base64Image = data img, originalName = ''ai-generated-image.jpg'',
                   size_field = length (data img), mimetype = ''image/jpeg'',
                   uploadedAt = None, createdAt = now e, updatedAt = None,
                   type_field = Some ''generated''\<rparr>]\<rparr>))"
  by (simp add: save_generated_def writeDB_def getDB_def insertOne_def collection_docs_def Let_def)

text \<open>What a 200 answer of \<^verbatim>\<open>generateImage\<close> implies: the request was valid, the lookup
  found a record, and the state grew by one gateway call and one document.\<close>

lemma generateImage_200:
  assumes ok: "status (fst (generateImage e req w)) = 200"
  shows "\<exists>promptData rest.
     truthy (fst (request_inputs req)) \<and> truthy (fst (snd (request_inputs req))) \<and>
     db_connected w \<and>
     readDB Images (ByPromptId (string_of (fst (request_inputs req)))) w = Inr (promptData # rest) \<and>
     generateImage e req w =
       (\<lparr>status = 200, success = True, message = ''Image generated successfully'',
         error = None,
         payload = GenerateData (uuidv4 e) (string_of (fst (request_inputs req)))
                     (promptName promptData) (string_of (fst (snd (request_inputs req)))) (now e)\<rparr>,
        w\<lparr>gateway_calls := gateway_calls w @
             [GenerateImageCall (prompt promptData) (string_of (fst (snd (request_inputs req))))
                (snd (snd (request_inputs req)))],
          generated_images := generated_images w @
             [\<lparr>id_field = uuidv4 e, promptId = fst (request_inputs req),
               promptName = promptName promptData, prompt = prompt promptData,
               base64Image = string_of (fst (snd (request_inputs req))),
               originalName = ''ai-generated-image.jpg'',
               size_field = length (string_of (fst (snd (request_inputs req)))),
               mimetype = ''image/jpeg'',
               uploadedAt = None, createdAt = now e, updatedAt = None,
               type_field = Some ''generated''\<rparr>]\<rparr>)"
proof -
  have v: "truthy (fst (request_inputs req))" "truthy (fst (snd (request_inputs req)))"
    using ok generateImage_invalid [of req e w] by auto
  have c: "db_connected w"
  proof (rule ccontr)
    assume "\<not> db_connected w"
    then have "status (fst (generateImage e req w)) = 500"
      using v by (simp add: generateImage_disconnected internal_error_def)
    with ok show False by simp
  qed
  have pid: "fst (request_inputs req) = Some (string_of (fst (request_inputs req)))"
    using v(1) by (auto simp: truthy_def string_of_def split: option.splits)
  obtain promptData rest
    where f: "filter (\<lambda>d. promptId d = fst (request_inputs req)) (images w) = promptData # rest"
    using ok v c generateImage_not_found [of req w e]
    by (cases "filter (\<lambda>d. promptId d = fst (request_inputs req)) (images w)") auto
  have rd: "readDB Images (ByPromptId (string_of (fst (request_inputs req)))) w
              = Inr (promptData # rest)"
    using f c pid by (simp add: readDB_connected collection_docs_def matches_ByPromptId)
  note g = generateImage_found [OF v c f, of e]
  show ?thesis
    using ok rd v c pid
    by (auto simp: g Let_def save_generated_cases internal_error_def generation_failed_def
        dest!: service_generateImage_success
        split: generation_result.splits list.splits if_splits)
qed

lemma generateImage_unchanged_or_called:
  "snd (generateImage e req w) = w \<or>
   (\<exists>first rest. filter (\<lambda>d. promptId d = fst (request_inputs req)) (images w) = first # rest)"
proof (cases "truthy (fst (request_inputs req)) \<and> truthy (fst (snd (request_inputs req)))")
  case False
  then show ?thesis using generateImage_invalid [of req e w] by auto
next
  case v: True
  show ?thesis
  proof (cases "db_connected w")
    case False
    then show ?thesis using v generateImage_disconnected [of req w e] by simp
  next
    case True
    then show ?thesis
      using v generateImage_not_found [of req w e]
      by (cases "filter (\<lambda>d. promptId d = fst (request_inputs req)) (images w)") auto
  qed
qed

subsection \<open>Generation from a reference image\<close>

text \<open>
  Claim C1. When no record of the images collection carries the request's promptId, the
  handler of POST generate leaves the state as it was: no call reaches the Model
  Gateway and nothing is inserted into generated_images. When moreover the request
  passes validation (promptId and referenceImage present) and the store is connected, so
  that the lookup runs and returns no record, the answer is 404 with \<^verbatim>\<open>success: false\<close>
  and the not-found message.
\<close>

theorem C1_unknown_promptId:
  "(\<forall>d\<in>set (images w). promptId d \<noteq> fst (request_inputs req)) \<longrightarrow>
     snd (generateImage e req w) = w \<and>
     gateway_calls (snd (generateImage e req w)) = gateway_calls w \<and>
     generated_images (snd (generateImage e req w)) = generated_images w \<and>
     (truthy (fst (request_inputs req)) \<and> truthy (fst (snd (request_inputs req))) \<and>
      db_connected w \<longrightarrow>
        status (fst (generateImage e req w)) = 404 \<and>
        \<not> success (fst (generateImage e req w)) \<and>
        message (fst (generateImage e req w)) = ''No prompt found with the provided promptId'')"
proof (intro impI)
  assume nomatch: "\<forall>d\<in>set (images w). promptId d \<noteq> fst (request_inputs req)"
  then have empty: "filter (\<lambda>d. promptId d = fst (request_inputs req)) (images w) = []"
    by (simp add: filter_empty_conv)
  have same: "snd (generateImage e req w) = w"
    using generateImage_unchanged_or_called [of e req w] empty by simp
  show "snd (generateImage e req w) = w \<and>
     gateway_calls (snd (generateImage e req w)) = gateway_calls w \<and>
     generated_images (snd (generateImage e req w)) = generated_images w \<and>
     (truthy (fst (request_inputs req)) \<and> truthy (fst (snd (request_inputs req))) \<and>
      db_connected w \<longrightarrow>
        status (fst (generateImage e req w)) = 404 \<and>
        \<not> success (fst (generateImage e req w)) \<and>
        message (fst (generateImage e req w)) = ''No prompt found with the provided promptId'')"
    using same generateImage_not_found [of req w e, OF _ _ _ empty] by simp
qed


theorem C1_witness:
  "fst (request_inputs (json_request (Some ''ghost'') (Some ''QUJD''))) = Some ''ghost'' \<and>
   map promptId (images sunset_world) = [Some ''p1'', Some ''p1'', Some ''p2''] \<and>
   truthy (fst (request_inputs (json_request (Some ''ghost'') (Some ''QUJD'')))) \<and>
   truthy (fst (snd (request_inputs (json_request (Some ''ghost'') (Some ''QUJD''))))) \<and>
   db_connected sunset_world \<and>
   status (fst (generateImage ok_env (json_request (Some ''ghost'') (Some ''QUJD'')) sunset_world))
     = 404 \<and>
   snd (generateImage ok_env (json_request (Some ''ghost'') (Some ''QUJD'')) sunset_world)
     = sunset_world"
proof -
  have ri: "request_inputs (json_request (Some ''ghost'') (Some ''QUJD''))
              = (Some ''ghost'', Some ''QUJD'', ''image/jpeg'')"
    by (simp add: request_inputs_def json_request_def is_json_def startsWith_def)
  have h: "\<forall>d\<in>set (images sunset_world).
      promptId d \<noteq> fst (request_inputs (json_request (Some ''ghost'') (Some ''QUJD'')))"
    by (simp add: ri sunset_world_def upload_doc_def)
  have t: "truthy (fst (request_inputs (json_request (Some ''ghost'') (Some ''QUJD''))))"
    "truthy (fst (snd (request_inputs (json_request (Some ''ghost'') (Some ''QUJD'')))))"
    by (simp_all add: ri truthy_def)
  have c: "db_connected sunset_world" by (simp add: sunset_world_def)
  have m: "map promptId (images sunset_world) = [Some ''p1'', Some ''p1'', Some ''p2'']"
    by (simp add: sunset_world_def upload_doc_def)
  show ?thesis
    using h t c m
      C1_unknown_promptId [of sunset_world "json_request (Some ''ghost'') (Some ''QUJD'')" ok_env]
    by (simp add: ri)
qed

text \<open>
  Claim C2. A call of POST generate that answers 200 has appended exactly one document
  to generated_images and left the images collection alone; the document's promptName
  and prompt are those of the first record the lookup by promptId returned.
\<close>

theorem C2_first_match_wins:
  "status (fst (generateImage e req w)) = 200 \<longrightarrow>
     (\<exists>first rest art.
        readDB Images (ByPromptId (string_of (fst (request_inputs req)))) w = Inr (first # rest) \<and>
        generated_images (snd (generateImage e req w)) = generated_images w @ [art] \<and>
        images (snd (generateImage e req w)) = images w \<and>
        promptName art = promptName first \<and> prompt art = prompt first \<and>
        promptId art = fst (request_inputs req))"
proof
  assume "status (fst (generateImage e req w)) = 200"
  from generateImage_200 [OF this] obtain promptData rest where
    rd: "readDB Images (ByPromptId (string_of (fst (request_inputs req)))) w
           = Inr (promptData # rest)"
    and g: "generateImage e req w =
       (\<lparr>status = 200, success = True, message = ''Image generated successfully'',
         error = None,
         payload = GenerateData (uuidv4 e) (string_of (fst (request_inputs req)))
                     (promptName promptData) (string_of (fst (snd (request_inputs req)))) (now e)\<rparr>,
        w\<lparr>gateway_calls := gateway_calls w @
             [GenerateImageCall (prompt promptData) (string_of (fst (snd (request_inputs req))))
                (snd (snd (request_inputs req)))],
          generated_images := generated_images w @
             [\<lparr>id_field = uuidv4 e, promptId = fst (request_inputs req),
               promptName = promptName promptData, prompt = prompt promptData,
               base64Image = string_of (fst (snd (request_inputs req))),
               originalName = ''ai-generated-image.jpg'',
               size_field = length (string_of (fst (snd (request_inputs req)))),
               mimetype = ''image/jpeg'',
               uploadedAt = None, createdAt = now e, updatedAt = None,
               type_field = Some ''generated''\<rparr>]\<rparr>)"
    by blast
  show "\<exists>first rest art.
        readDB Images (ByPromptId (string_of (fst (request_inputs req)))) w = Inr (first # rest) \<and>
        generated_images (snd (generateImage e req w)) = generated_images w @ [art] \<and>
        images (snd (generateImage e req w)) = images w \<and>
        promptName art = promptName first \<and> prompt art = prompt first \<and>
        promptId art = fst (request_inputs req)"
    using rd by (simp add: g)
qed

lemma p1_inputs:
  "request_inputs (json_request (Some ''p1'') (Some ''QUJD'')) = (Some ''p1'', Some ''QUJD'', ''image/jpeg'')"
  by (simp add: request_inputs_def json_request_def is_json_def startsWith_def)

lemma ok_env_generateImage:
  "ImageGenerationService_generateImage ok_env p r m =
     GenSuccess [\<lparr>data = r, mimeType = m\<rparr>] ''Image processed with Gemini AI''
       ''A warm sunset behind dark peaks.''"
  by (simp add: ImageGenerationService_generateImage_def try_generateImage_def ok_env_def
      truthy_def getBestAvailableModel_def modelPriority_def)

lemma ok_env_fields:
  "uuidv4 ok_env = ''gen-1''" "now ok_env = ''2024-01-01T00:00:00.000Z''"
  "listCollections ok_env = [''images'', ''generated_images'']"
  by (simp_all add: ok_env_def)

lemma p1_generate:
  "generateImage ok_env (json_request (Some ''p1'') (Some ''QUJD'')) sunset_world =
     (\<lparr>status = 200, success = True, message = ''Image generated successfully'', error = None,
       payload = GenerateData ''gen-1'' ''p1'' ''Sunset'' ''QUJD'' ''2024-01-01T00:00:00.000Z''\<rparr>,
      sunset_world\<lparr>gateway_calls :=
          [GenerateImageCall ''a sunset over mountains'' ''QUJD'' ''image/jpeg''],
        generated_images :=
          [\<lparr>id_field = ''gen-1'', promptId = Some ''p1'', promptName = ''Sunset'',
            prompt = ''a sunset over mountains'', base64Image = ''QUJD'',
            originalName = ''ai-generated-image.jpg'', size_field = 4,
            mimetype = ''image/jpeg'', uploadedAt = None,
            createdAt = ''2024-01-01T00:00:00.000Z'', updatedAt = None,
            type_field = Some ''generated''\<rparr>]\<rparr>)"
  by (simp add: generateImage_def p1_inputs truthy_def string_of_def getDB_def readDB_def
      collection_docs_def matches_def ok_env_generateImage save_generated_def writeDB_def
      insertOne_def sunset_world_def upload_doc_def ok_env_fields Let_def)

theorem C2_witness:
  "status (fst (generateImage ok_env (json_request (Some ''p1'') (Some ''QUJD'')) sunset_world)) = 200 \<and>
   (\<exists>first rest art.
      readDB Images (ByPromptId ''p1'') sunset_world = Inr (first # rest) \<and>
      generated_images (snd (generateImage ok_env (json_request (Some ''p1'') (Some ''QUJD''))
         sunset_world)) = generated_images sunset_world @ [art] \<and>
      promptName first = ''Sunset'' \<and> promptName art = ''Sunset'' \<and>
      prompt art = ''a sunset over mountains'')"
proof -
  have h: "status (fst (generateImage ok_env (json_request (Some ''p1'') (Some ''QUJD''))
             sunset_world)) = 200"
    by (simp add: p1_generate)
  have rd: "readDB Images (ByPromptId ''p1'') sunset_world =
      Inr [upload_doc ''img-1'' ''p1'' ''Sunset'' ''a sunset over mountains'',
           upload_doc ''img-2'' ''p1'' ''Sunrise'' ''a sunrise over the sea'']"
    by (simp add: readDB_def getDB_def collection_docs_def matches_def sunset_world_def
        upload_doc_def)
  show ?thesis
    using h rd
      C2_first_match_wins [of ok_env "json_request (Some ''p1'') (Some ''QUJD'')" sunset_world]
    by (auto simp: p1_inputs string_of_def upload_doc_def)
qed

text \<open>
  Claim C3. A success result of the gateway's \<^verbatim>\<open>generateImage\<close> carries exactly one
  image, whose data is the reference image it was given, unmodified. So when POST
  generate answers 200, the image data of the response and of the one document it
  inserted both equal the request's reference image.
\<close>

theorem C3_reference_image_echoed:
  "(ImageGenerationService_generateImage e p ref mt = GenSuccess imgs m t \<longrightarrow>
      imgs = [\<lparr>data = ref, mimeType = mt\<rparr>]) \<and>
   (status (fst (generateImage e req w)) = 200 \<longrightarrow>
      data_base64Image (payload (fst (generateImage e req w)))
        = string_of (fst (snd (request_inputs req))) \<and>
      (\<exists>art. generated_images (snd (generateImage e req w)) = generated_images w @ [art] \<and>
             base64Image art = string_of (fst (snd (request_inputs req)))))"
proof (intro conjI impI)
  assume "ImageGenerationService_generateImage e p ref mt = GenSuccess imgs m t"
  then show "imgs = [\<lparr>data = ref, mimeType = mt\<rparr>]"
    by (simp add: service_generateImage_success)
next
  assume ok: "status (fst (generateImage e req w)) = 200"
  from generateImage_200 [OF ok] obtain promptData rest where
    rd: "readDB Images (ByPromptId (string_of (fst (request_inputs req)))) w
           = Inr (promptData # rest)"
    and g: "generateImage e req w =
       (\<lparr>status = 200, success = True, message = ''Image generated successfully'',
         error = None,
         payload = GenerateData (uuidv4 e) (string_of (fst (request_inputs req)))
                     (promptName promptData) (string_of (fst (snd (request_inputs req)))) (now e)\<rparr>,
        w\<lparr>gateway_calls := gateway_calls w @
             [GenerateImageCall (prompt promptData) (string_of (fst (snd (request_inputs req))))
                (snd (snd (request_inputs req)))],
          generated_images := generated_images w @
             [\<lparr>id_field = uuidv4 e, promptId = fst (request_inputs req),
               promptName = promptName promptData, prompt = prompt promptData,
               base64Image = string_of (fst (snd (request_inputs req))),
               originalName = ''ai-generated-image.jpg'',
               size_field = length (string_of (fst (snd (request_inputs req)))),
               mimetype = ''image/jpeg'',
               uploadedAt = None, createdAt = now e, updatedAt = None,
               type_field = Some ''generated''\<rparr>]\<rparr>)"
    by blast
  show "data_base64Image (payload (fst (generateImage e req w)))
        = string_of (fst (snd (request_inputs req)))"
    by (simp add: g)
  show "\<exists>art. generated_images (snd (generateImage e req w)) = generated_images w @ [art] \<and>
             base64Image art = string_of (fst (snd (request_inputs req)))"
    by (simp add: g)
qed

theorem C3_witness:
  "ImageGenerationService_generateImage ok_env ''a sunset over mountains'' ''QUJD'' ''image/jpeg''
     = GenSuccess [\<lparr>data = ''QUJD'', mimeType = ''image/jpeg''\<rparr>] ''Image processed with Gemini AI''
         ''A warm sunset behind dark peaks.'' \<and>
   status (fst (generateImage ok_env (json_request (Some ''p1'') (Some ''QUJD'')) sunset_world)) = 200 \<and>
   string_of (fst (snd (request_inputs (json_request (Some ''p1'') (Some ''QUJD''))))) = ''QUJD'' \<and>
   data_base64Image (payload (fst (generateImage ok_env (json_request (Some ''p1'') (Some ''QUJD''))
     sunset_world))) = ''QUJD'' \<and>
   (\<exists>art. generated_images (snd (generateImage ok_env (json_request (Some ''p1'') (Some ''QUJD''))
            sunset_world)) = generated_images sunset_world @ [art] \<and>
          base64Image art = ''QUJD'')"
proof -
  have h: "status (fst (generateImage ok_env (json_request (Some ''p1'') (Some ''QUJD''))
             sunset_world)) = 200"
    by (simp add: p1_generate)
  have r: "string_of (fst (snd (request_inputs (json_request (Some ''p1'') (Some ''QUJD''))))) = ''QUJD''"
    by (simp add: p1_inputs string_of_def)
  show ?thesis
    using h r ok_env_generateImage [of "''a sunset over mountains''" "''QUJD''" "''image/jpeg''"]
      C3_reference_image_echoed [of ok_env "''a sunset over mountains''" "''QUJD''" "''image/jpeg''"
        "[\<lparr>data = ''QUJD'', mimeType = ''image/jpeg''\<rparr>]" "''Image processed with Gemini AI''"
        "''A warm sunset behind dark peaks.''" "json_request (Some ''p1'') (Some ''QUJD'')"
        sunset_world]
    by simp
qed


subsection \<open>Generation from text\<close>

lemma service_generateImageFromText_success:
  "ImageGenerationService_generateImageFromText e p = GenSuccess imgs m t \<Longrightarrow>
   imgs = [\<lparr>data = ''text-generated-description'', mimeType = ''text/plain''\<rparr>] \<and>
   try_generateImageFromText e p = Inr t"
  by (auto simp: ImageGenerationService_generateImageFromText_def catch_generateImageFromText_def
      split: sum.splits if_splits)

lemma save_text_generated_cases:
  "save_text_generated e ptext img w =
     (if \<not> db_connected w
      then (internal_error ''Database not connected. Call connectDB() first.'', w)
      else if list_ex (\<lambda>x. id_field x = uuidv4 e) (generated_images w)
      then (internal_error ''E11000 duplicate key error'', w)
      else (\<lparr>status = 200, success = True,
              message = ''Image generated successfully from text'', error = None,
              payload = GenerateTextData (uuidv4 e) ptext (data img) (now e)\<rparr>,
            w\<lparr>generated_images := generated_images w @
                 [\<lparr>id_field = uuidv4 e, promptId = None, promptName = ''Text Prompt'',
                   prompt = ptext, base64Image = data img,
                   originalName = ''ai-text-generated-image.jpg'',
                   size_field = length (data img), mimetype = ''image/jpeg'',
                   uploadedAt = None, createdAt = now e, updatedAt = None,
                   type_field = Some ''generated''\<rparr>]\<rparr>))"
  by (simp add: save_text_generated_def writeDB_def getDB_def insertOne_def collection_docs_def
      Let_def)

lemma generateImageFromText_invalid:
  "\<not> truthy (body_prompt req) \<Longrightarrow>
   generateImageFromText e req w =
     (\<lparr>status = 400, success = False, message = ''prompt is required'',
       error = None, payload = NoPayload\<rparr>, w)"
  by (simp add: generateImageFromText_def)

lemma generateImageFromText_200:
  assumes ok: "status (fst (generateImageFromText e req w)) = 200"
  shows "\<exists>m t. truthy (body_prompt req) \<and>
     ImageGenerationService_generateImageFromText e (string_of (body_prompt req)) =
       GenSuccess [\<lparr>data = ''text-generated-description'', mimeType = ''text/plain''\<rparr>] m t \<and>
     generateImageFromText e req w =
       (\<lparr>status = 200, success = True,
         message = ''Image generated successfully from text'', error = None,
         payload = GenerateTextData (uuidv4 e) (string_of (body_prompt req))
                     ''text-generated-description'' (now e)\<rparr>,
        w\<lparr>gateway_calls := gateway_calls w @
             [GenerateImageFromTextCall (string_of (body_prompt req))],
          generated_images := generated_images w @
             [\<lparr>id_field = uuidv4 e, promptId = None, promptName = ''Text Prompt'',
               prompt = string_of (body_prompt req),
               base64Image = ''text-generated-description'',
               originalName = ''ai-text-generated-image.jpg'',
               size_field = length ''text-generated-description'', mimetype = ''image/jpeg'',
               uploadedAt = None, createdAt = now e, updatedAt = None,
               type_field = Some ''generated''\<rparr>]\<rparr>)"
proof -
  have v: "truthy (body_prompt req)"
  proof (rule ccontr)
    assume "\<not> truthy (body_prompt req)"
    then have "status (fst (generateImageFromText e req w)) = 400"
      by (simp add: generateImageFromText_invalid)
    with ok show False by simp
  qed
  show ?thesis
    using ok v
    by (auto simp: generateImageFromText_def Let_def save_text_generated_cases
        internal_error_def generation_failed_def
        dest!: service_generateImageFromText_success
        split: generation_result.splits list.splits if_splits)
qed

text \<open>
  Claim C6. When POST generate-text answers 200 it has appended exactly one document to
  generated_images, with promptId \<^verbatim>\<open>null\<close> and promptName "Text Prompt"; the response
  returns that document's identity, prompt, image data and creation time.
\<close>

theorem C6_text_prompt_artifact:
  "status (fst (generateImageFromText e req w)) = 200 \<longrightarrow>
     (\<exists>art. generated_images (snd (generateImageFromText e req w)) = generated_images w @ [art] \<and>
            promptId art = None \<and> promptName art = ''Text Prompt'' \<and>
            imageId (payload (fst (generateImageFromText e req w))) = id_field art \<and>
            data_prompt (payload (fst (generateImageFromText e req w))) = prompt art \<and>
            data_base64Image (payload (fst (generateImageFromText e req w))) = base64Image art \<and>
            data_createdAt (payload (fst (generateImageFromText e req w))) = createdAt art)"
proof
  assume "status (fst (generateImageFromText e req w)) = 200"
  from generateImageFromText_200 [OF this] obtain m t where
    g: "generateImageFromText e req w =
       (\<lparr>status = 200, success = True,
         message = ''Image generated successfully from text'', error = None,
         payload = GenerateTextData (uuidv4 e) (string_of (body_prompt req))
                     ''text-generated-description'' (now e)\<rparr>,
        w\<lparr>gateway_calls := gateway_calls w @
             [GenerateImageFromTextCall (string_of (body_prompt req))],
          generated_images := generated_images w @
             [\<lparr>id_field = uuidv4 e, promptId = None, promptName = ''Text Prompt'',
               prompt = string_of (body_prompt req),
               base64Image = ''text-generated-description'',
               originalName = ''ai-text-generated-image.jpg'',
               size_field = length ''text-generated-description'', mimetype = ''image/jpeg'',
               uploadedAt = None, createdAt = now e, updatedAt = None,
               type_field = Some ''generated''\<rparr>]\<rparr>)"
    by blast
  show "\<exists>art. generated_images (snd (generateImageFromText e req w)) = generated_images w @ [art] \<and>
            promptId art = None \<and> promptName art = ''Text Prompt'' \<and>
            imageId (payload (fst (generateImageFromText e req w))) = id_field art \<and>
            data_prompt (payload (fst (generateImageFromText e req w))) = prompt art \<and>
            data_base64Image (payload (fst (generateImageFromText e req w))) = base64Image art \<and>
            data_createdAt (payload (fst (generateImageFromText e req w))) = createdAt art"
    unfolding g by simp
qed

lemma ok_env_generateImageFromText:
  "ImageGenerationService_generateImageFromText ok_env p =
     GenSuccess [\<lparr>data = ''text-generated-description'', mimeType = ''text/plain''\<rparr>]
       ''Text-to-image description generated with Gemini AI'' ''A warm sunset behind dark peaks.''"
  by (simp add: ImageGenerationService_generateImageFromText_def try_generateImageFromText_def
      ok_env_def truthy_def getBestAvailableModel_def modelPriority_def)

lemma text_generate:
  "generateImageFromText ok_env (text_request_of (Some ''a red fox'')) sunset_world =
     (\<lparr>status = 200, success = True,
       message = ''Image generated successfully from text'', error = None,
       payload = GenerateTextData ''gen-1'' ''a red fox'' ''text-generated-description''
                   ''2024-01-01T00:00:00.000Z''\<rparr>,
      sunset_world\<lparr>gateway_calls := [GenerateImageFromTextCall ''a red fox''],
        generated_images :=
          [\<lparr>id_field = ''gen-1'', promptId = None, promptName = ''Text Prompt'',
            prompt = ''a red fox'', base64Image = ''text-generated-description'',
            originalName = ''ai-text-generated-image.jpg'', size_field = 26,
            mimetype = ''image/jpeg'', uploadedAt = None,
            createdAt = ''2024-01-01T00:00:00.000Z'', updatedAt = None,
            type_field = Some ''generated''\<rparr>]\<rparr>)"
  by (simp add: generateImageFromText_def text_request_of_def truthy_def string_of_def
      ok_env_generateImageFromText save_text_generated_def writeDB_def getDB_def
      insertOne_def collection_docs_def sunset_world_def ok_env_fields Let_def)

theorem C6_witness:
  "status (fst (generateImageFromText ok_env (text_request_of (Some ''a red fox'')) sunset_world)) = 200 \<and>
   (\<exists>art. generated_images (snd (generateImageFromText ok_env (text_request_of (Some ''a red fox''))
             sunset_world)) = generated_images sunset_world @ [art] \<and>
          promptId art = None \<and> promptName art = ''Text Prompt'' \<and> id_field art = ''gen-1'')"
proof -
  have h: "status (fst (generateImageFromText ok_env (text_request_of (Some ''a red fox''))
              sunset_world)) = 200"
    by (simp add: text_generate)
  show ?thesis
    using h C6_text_prompt_artifact [of ok_env "text_request_of (Some ''a red fox'')" sunset_world]
    by (auto simp: text_generate)
qed

text \<open>
  Claim C7. When the prompt of a POST generate-text request is absent or the empty
  string, the answer is 400 with \<^verbatim>\<open>success: false\<close> and the message "prompt is required",
  and the state is unchanged: no gateway call, nothing inserted.
\<close>

theorem C7_empty_prompt_rejected:
  "body_prompt req = None \<or> body_prompt req = Some [] \<longrightarrow>
     status (fst (generateImageFromText e req w)) = 400 \<and>
     \<not> success (fst (generateImageFromText e req w)) \<and>
     message (fst (generateImageFromText e req w)) = ''prompt is required'' \<and>
     snd (generateImageFromText e req w) = w \<and>
     gateway_calls (snd (generateImageFromText e req w)) = gateway_calls w \<and>
     generated_images (snd (generateImageFromText e req w)) = generated_images w"
proof
  assume "body_prompt req = None \<or> body_prompt req = Some []"
  then have "\<not> truthy (body_prompt req)"
    by (auto simp: truthy_def)
  then show "status (fst (generateImageFromText e req w)) = 400 \<and>
     \<not> success (fst (generateImageFromText e req w)) \<and>
     message (fst (generateImageFromText e req w)) = ''prompt is required'' \<and>
     snd (generateImageFromText e req w) = w \<and>
     gateway_calls (snd (generateImageFromText e req w)) = gateway_calls w \<and>
     generated_images (snd (generateImageFromText e req w)) = generated_images w"
    by (simp add: generateImageFromText_invalid)
qed

theorem C7_witness:
  "body_prompt (text_request_of (Some [])) = Some [] \<and>
   status (fst (generateImageFromText ok_env (text_request_of (Some [])) sunset_world)) = 400 \<and>
   snd (generateImageFromText ok_env (text_request_of (Some [])) sunset_world) = sunset_world \<and>
   body_prompt (text_request_of None) = None \<and>
   status (fst (generateImageFromText ok_env (text_request_of None) sunset_world)) = 400 \<and>
   snd (generateImageFromText ok_env (text_request_of None) sunset_world) = sunset_world"
  using C7_empty_prompt_rejected [of "text_request_of (Some [])" ok_env sunset_world]
    C7_empty_prompt_rejected [of "text_request_of None" ok_env sunset_world]
  by (simp add: text_request_of_def)

text \<open>
  Claim C10. When POST generate-text answers 200, the document it inserted holds the
  placeholder string "text-generated-description" as its image data and "image/jpeg" as
  its mimetype, while the gateway's result reports the content as "text/plain".
\<close>

theorem C10_text_placeholder:
  "status (fst (generateImageFromText e req w)) = 200 \<longrightarrow>
     (\<exists>art m t.
        generated_images (snd (generateImageFromText e req w)) = generated_images w @ [art] \<and>
        base64Image art = ''text-generated-description'' \<and>
        mimetype art = ''image/jpeg'' \<and>
        ImageGenerationService_generateImageFromText e (string_of (body_prompt req)) =
          GenSuccess [\<lparr>data = ''text-generated-description'', mimeType = ''text/plain''\<rparr>] m t)"
proof
  assume "status (fst (generateImageFromText e req w)) = 200"
  from generateImageFromText_200 [OF this] obtain m t where
    s: "ImageGenerationService_generateImageFromText e (string_of (body_prompt req)) =
       GenSuccess [\<lparr>data = ''text-generated-description'', mimeType = ''text/plain''\<rparr>] m t"
    and g: "generateImageFromText e req w =
       (\<lparr>status = 200, success = True,
         message = ''Image generated successfully from text'', error = None,
         payload = GenerateTextData (uuidv4 e) (string_of (body_prompt req))
                     ''text-generated-description'' (now e)\<rparr>,
        w\<lparr>gateway_calls := gateway_calls w @
             [GenerateImageFromTextCall (string_of (body_prompt req))],
          generated_images := generated_images w @
             [\<lparr>id_field = uuidv4 e, promptId = None, promptName = ''Text Prompt'',
               prompt = string_of (body_prompt req),
               base64Image = ''text-generated-description'',
               originalName = ''ai-text-generated-image.jpg'',
               size_field = length ''text-generated-description'', mimetype = ''image/jpeg'',
               uploadedAt = None, createdAt = now e, updatedAt = None,
               type_field = Some ''generated''\<rparr>]\<rparr>)"
    by blast
  show "\<exists>art m t.
        generated_images (snd (generateImageFromText e req w)) = generated_images w @ [art] \<and>
        base64Image art = ''text-generated-description'' \<and>
        mimetype art = ''image/jpeg'' \<and>
        ImageGenerationService_generateImageFromText e (string_of (body_prompt req)) =
          GenSuccess [\<lparr>data = ''text-generated-description'', mimeType = ''text/plain''\<rparr>] m t"
    unfolding g using s by simp
qed

theorem C10_witness:
  "status (fst (generateImageFromText ok_env (text_request_of (Some ''a red fox'')) sunset_world)) = 200 \<and>
   (\<exists>art m t.
      generated_images (snd (generateImageFromText ok_env (text_request_of (Some ''a red fox''))
         sunset_world)) = generated_images sunset_world @ [art] \<and>
      base64Image art = ''text-generated-description'' \<and> mimetype art = ''image/jpeg'' \<and>
      ImageGenerationService_generateImageFromText ok_env ''a red fox'' =
        GenSuccess [\<lparr>data = ''text-generated-description'', mimeType = ''text/plain''\<rparr>] m t)"
proof -
  have h: "status (fst (generateImageFromText ok_env (text_request_of (Some ''a red fox''))
              sunset_world)) = 200"
    by (simp add: text_generate)
  have b: "string_of (body_prompt (text_request_of (Some ''a red fox''))) = ''a red fox''"
    by (simp add: text_request_of_def string_of_def)
  show ?thesis
    using h b C10_text_placeholder [of ok_env "text_request_of (Some ''a red fox'')" sunset_world]
    by simp
qed

subsection \<open>The list of prompts\<close>

lemma remdups_snoc: "remdups (ys @ [x]) = remdups (removeAll x ys) @ [x]"
  by (induction ys) auto

lemma first_seen_Nil: "first_seen [] = []"
  by (simp add: first_seen_def)

lemma removeAll_rev: "removeAll x (rev xs) = rev (removeAll x xs)"
  by (induction xs) auto

lemma first_seen_Cons: "first_seen (x # xs) = x # first_seen (removeAll x xs)"
  by (simp add: first_seen_def remdups_snoc removeAll_rev)

lemma first_seen_snoc:
  "first_seen (xs @ [x]) = (if x \<in> set xs then first_seen xs else first_seen xs @ [x])"
  by (simp add: first_seen_def)

lemma set_first_seen: "set (first_seen xs) = set xs"
  by (simp add: first_seen_def)

lemma distinct_first_seen: "distinct (first_seen xs)"
  by (simp add: first_seen_def)

lemma find_append_Some: "find P xs = Some d \<Longrightarrow> find P (xs @ ys) = Some d"
  by (induction xs) (auto split: if_splits)

lemma find_append_None: "find P xs = None \<Longrightarrow> find P (xs @ ys) = find P ys"
  by (induction xs) (auto split: if_splits)

lemma scanned_promptIds_snoc:
  "scanned_promptIds (xs @ [x]) =
     (if truthy (promptId x) then scanned_promptIds xs @ [string_of (promptId x)]
      else scanned_promptIds xs)"
  by (simp add: scanned_promptIds_def)

lemma truthy_Some_string_of: "truthy v \<Longrightarrow> v = Some (string_of v)"
  by (auto simp: truthy_def string_of_def split: option.splits)

lemma promptId_in_scanned:
  "d \<in> set xs \<Longrightarrow> promptId d = Some p \<Longrightarrow> p \<noteq> [] \<Longrightarrow> p \<in> set (scanned_promptIds xs)"
  by (force simp: scanned_promptIds_def truthy_def string_of_def)

lemma getPrompts_loop_invariant:
  "fold getPrompts_step imgs ([], {}) = (acc, seen) \<Longrightarrow>
     seen = set (scanned_promptIds imgs) \<and>
     map entry_id acc = first_seen (scanned_promptIds imgs) \<and>
     (\<forall>e\<in>set acc. first_record_of imgs e)"
proof (induction imgs arbitrary: acc seen rule: rev_induct)
  case Nil
  then show ?case by (simp add: scanned_promptIds_def first_seen_def)
next
  case (snoc x xs)
  obtain acc0 seen0 where f0: "fold getPrompts_step xs ([], {}) = (acc0, seen0)"
    by (cases "fold getPrompts_step xs ([], {})") auto
  from snoc.IH [OF f0] have
    s0: "seen0 = set (scanned_promptIds xs)" and
    i0: "map entry_id acc0 = first_seen (scanned_promptIds xs)" and
    r0: "\<forall>e\<in>set acc0. first_record_of xs e"
    by auto
  have step: "getPrompts_step x (acc0, seen0) = (acc, seen)"
    using snoc.prems f0 by simp
  have keep: "first_record_of (xs @ [x]) e" if "first_record_of xs e" for e
    using that by (auto simp: first_record_of_def find_append_Some split: option.splits)
  show ?case
  proof (cases "truthy (promptId x) \<and> string_of (promptId x) \<notin> seen0")
    case False
    then have eq: "acc = acc0" "seen = seen0"
      using step by (auto simp: getPrompts_step_def)
    show ?thesis
      using False s0 i0 r0 keep
      by (auto simp: eq scanned_promptIds_snoc first_seen_snoc)
  next
    case True
    let ?p = "string_of (promptId x)"
    have eq: "acc = acc0 @ [\<lparr>entry_id = ?p, entry_promptName = promptName x,
                 entry_prompt = prompt x, entry_createdAt = createdAt x\<rparr>]"
      "seen = insert ?p seen0"
      using step True by (auto simp: getPrompts_step_def)
    have pid: "promptId x = Some ?p" and ne: "?p \<noteq> []"
      using True by (auto simp: truthy_def string_of_def split: option.splits)
    have "\<not> (\<exists>d. d \<in> set xs \<and> promptId d = Some ?p)"
      using True s0 ne promptId_in_scanned by blast
    then have none: "find (\<lambda>d. promptId d = Some ?p) xs = None"
      by (simp add: find_None_iff)
    have "find (\<lambda>d. promptId d = Some ?p) (xs @ [x]) = find (\<lambda>d. promptId d = Some ?p) [x]"
      by (rule find_append_None [OF none])
    also have "\<dots> = Some x"
      using pid by simp
    finally have fx: "find (\<lambda>d. promptId d = Some ?p) (xs @ [x]) = Some x" .
    have new: "first_record_of (xs @ [x])
       \<lparr>entry_id = ?p, entry_promptName = promptName x,
        entry_prompt = prompt x, entry_createdAt = createdAt x\<rparr>"
      by (simp add: first_record_of_def fx)
    show ?thesis
      using True s0 i0 r0 keep new
      by (auto simp: eq scanned_promptIds_snoc first_seen_snoc)
  qed
qed

lemma uniquePrompts_of_ids:
  "map entry_id (uniquePrompts_of imgs) = first_seen (scanned_promptIds imgs)"
  using getPrompts_loop_invariant [of imgs "fst (fold getPrompts_step imgs ([], {}))"
      "snd (fold getPrompts_step imgs ([], {}))"]
  by (simp add: uniquePrompts_of_def)

lemma uniquePrompts_of_first_record:
  "e \<in> set (uniquePrompts_of imgs) \<Longrightarrow> first_record_of imgs e"
  using getPrompts_loop_invariant [of imgs "fst (fold getPrompts_step imgs ([], {}))"
      "snd (fold getPrompts_step imgs ([], {}))"]
  by (simp add: uniquePrompts_of_def)

lemma length_uniquePrompts_of:
  "length (uniquePrompts_of imgs) \<le> card (promptId ` set imgs)"
proof -
  have "length (uniquePrompts_of imgs) = length (map entry_id (uniquePrompts_of imgs))"
    by simp
  also have "\<dots> = card (set (scanned_promptIds imgs))"
    by (simp only: uniquePrompts_of_ids distinct_card [OF distinct_first_seen, symmetric]
        set_first_seen)
  also have "\<dots> = card (Some ` set (scanned_promptIds imgs))"
    by (simp add: card_image)
  also have "\<dots> \<le> card (promptId ` set imgs)"
  proof (rule card_mono)
    show "finite (promptId ` set imgs)" by simp
    show "Some ` set (scanned_promptIds imgs) \<subseteq> promptId ` set imgs"
      by (auto simp: scanned_promptIds_def dest: truthy_Some_string_of)
  qed
  finally show ?thesis .
qed

text \<open>
  Claim C8. For every list of scanned records, the list of prompts \<^verbatim>\<open>getPrompts\<close> builds
  has pairwise different ids, so at most one entry per distinct promptId and at most as
  many entries as records; its ids are the scanned promptIds in the order of their first
  occurrence; and each entry carries the promptName and prompt of the first record with
  its id. With the store connected, the handler answers 200 with that list.
\<close>

theorem C8_listPrompts_first_seen:
  "distinct (map entry_id (uniquePrompts_of imgs)) \<and>
   map entry_id (uniquePrompts_of imgs) = first_seen (scanned_promptIds imgs) \<and>
   length (uniquePrompts_of imgs) \<le> card (promptId ` set imgs) \<and>
   card (promptId ` set imgs) \<le> length imgs \<and>
   (\<forall>e\<in>set (uniquePrompts_of imgs).
      \<exists>d. find (\<lambda>d. promptId d = Some (entry_id e)) imgs = Some d \<and>
          entry_promptName e = promptName d \<and> entry_prompt e = prompt d) \<and>
   (db_connected w \<longrightarrow>
      getPrompts w =
        \<lparr>status = 200, success = True, message = ''Prompts retrieved successfully'',
         error = None, payload = PromptsData (uniquePrompts_of (images w))\<rparr>)"
proof (intro conjI ballI impI)
  show "distinct (map entry_id (uniquePrompts_of imgs))"
    by (simp only: uniquePrompts_of_ids distinct_first_seen)
  show "map entry_id (uniquePrompts_of imgs) = first_seen (scanned_promptIds imgs)"
    by (rule uniquePrompts_of_ids)
  show "length (uniquePrompts_of imgs) \<le> card (promptId ` set imgs)"
    by (rule length_uniquePrompts_of)
  show "card (promptId ` set imgs) \<le> length imgs"
    by (metis card_image_le card_length le_trans List.finite_set)
next
  fix e
  assume "e \<in> set (uniquePrompts_of imgs)"
  then have "first_record_of imgs e"
    by (rule uniquePrompts_of_first_record)
  then show "\<exists>d. find (\<lambda>d. promptId d = Some (entry_id e)) imgs = Some d \<and>
          entry_promptName e = promptName d \<and> entry_prompt e = prompt d"
    by (auto simp: first_record_of_def split: option.splits)
next
  assume "db_connected w"
  then show "getPrompts w =
        \<lparr>status = 200, success = True, message = ''Prompts retrieved successfully'',
         error = None, payload = PromptsData (uniquePrompts_of (images w))\<rparr>"
    by (simp add: getPrompts_def readDB_connected collection_docs_def matches_Everything)
qed


lemma sunset_prompts:
  "uniquePrompts_of (images sunset_world) =
     [\<lparr>entry_id = ''p1'', entry_promptName = ''Sunset'', entry_prompt = ''a sunset over mountains'',
       entry_createdAt = ''2023-12-31T00:00:00.000Z''\<rparr>,
      \<lparr>entry_id = ''p2'', entry_promptName = ''Forest'', entry_prompt = ''a misty forest'',
       entry_createdAt = ''2023-12-31T00:00:00.000Z''\<rparr>]"
  by (simp add: uniquePrompts_of_def getPrompts_step_def sunset_world_def upload_doc_def
      truthy_def string_of_def)

theorem C8_witness:
  "map promptId (images sunset_world) = [Some ''p1'', Some ''p1'', Some ''p2''] \<and>
   map promptName (images sunset_world) = [''Sunset'', ''Sunrise'', ''Forest''] \<and>
   db_connected sunset_world \<and>
   map entry_id (uniquePrompts_of (images sunset_world)) = [''p1'', ''p2''] \<and>
   map entry_promptName (uniquePrompts_of (images sunset_world)) = [''Sunset'', ''Forest''] \<and>
   first_seen (scanned_promptIds (images sunset_world)) = [''p1'', ''p2''] \<and>
   payload (getPrompts sunset_world) = PromptsData (uniquePrompts_of (images sunset_world))"
proof -
  have c: "db_connected sunset_world" by (simp add: sunset_world_def)
  have m: "map promptId (images sunset_world) = [Some ''p1'', Some ''p1'', Some ''p2'']"
    "map promptName (images sunset_world) = [''Sunset'', ''Sunrise'', ''Forest'']"
    by (simp_all add: sunset_world_def upload_doc_def)
  show ?thesis
    using c m C8_listPrompts_first_seen [of "images sunset_world" sunset_world]
    by (simp add: sunset_prompts)
qed

subsection \<open>Upload and fetch by id\<close>

lemma writeDB_Images_Inr:
  "writeDB Images d w = Inr w' \<Longrightarrow>
   db_connected w \<and> (\<forall>x\<in>set (images w). id_field x \<noteq> id_field d) \<and>
   w' = w\<lparr>images := images w @ [d]\<rparr>"
  by (auto simp: writeDB_def getDB_def insertOne_def collection_docs_def list_ex_iff
      split: if_splits)

lemma getImageById_after_insert:
  assumes "db_connected w" "\<forall>x\<in>set (images w). id_field x \<noteq> id_field d"
  shows "getImageById (id_field d) (w\<lparr>images := images w @ [d]\<rparr>) =
     \<lparr>status = 200, success = True, message = ''Image retrieved successfully'', error = None,
      payload = ImageData (id_field d) (promptId d) (promptName d) (prompt d) (base64Image d)
                  (originalName d) (size_field d) (mimetype d) (uploadedAt d)\<rparr>"
proof -
  have "filter (\<lambda>x. id_field x = id_field d) (images w) = []"
    using assms(2) by (simp add: filter_empty_conv)
  then show ?thesis
    using assms(1)
    by (simp add: getImageById_def readDB_connected collection_docs_def matches_ById)
qed

lemma catch_uploadImage_status: "status (catch_uploadImage err) \<noteq> 201"
  by (simp add: catch_uploadImage_def)

lemma upload_source_Inl: "upload_source req = Inl r \<Longrightarrow> status r \<noteq> 201"
  by (auto simp: upload_source_def catch_uploadImage_status
      split: option.splits sum.splits if_splits)

lemma uploadImage_201:
  assumes ok: "status (fst (uploadImage e req w)) = 201"
  shows "\<exists>src oname sz mt doc.
     upload_source req = Inr (src, oname, sz, mt) \<and>
     doc = \<lparr>id_field = uuidv4 e, promptId = up_promptId req,
            promptName = string_of (up_promptName req),
            prompt = string_of (up_prompt req), base64Image = src,
            originalName = oname, size_field = sz, mimetype = mt,
            uploadedAt = Some (now e), createdAt = now e, updatedAt = Some (now e),
            type_field = None\<rparr> \<and>
     db_connected w \<and> (\<forall>x\<in>set (images w). id_field x \<noteq> uuidv4 e) \<and>
     snd (uploadImage e req w) = w\<lparr>images := images w @ [doc]\<rparr> \<and>
     payload (fst (uploadImage e req w)) =
       UploadData (uuidv4 e) (string_of (up_promptId req)) (string_of (up_promptName req))
         (string_of (up_prompt req)) oname sz mt (now e)"
proof -
  have v: "\<not> (\<not> truthy (up_promptId req) \<or> \<not> truthy (up_promptName req) \<or>
              \<not> truthy (up_prompt req))"
  proof
    assume "\<not> truthy (up_promptId req) \<or> \<not> truthy (up_promptName req) \<or>
              \<not> truthy (up_prompt req)"
    then have "status (fst (uploadImage e req w)) = 400"
      unfolding uploadImage_def by (simp only: if_True fst_conv response.simps)
    with ok show False by simp
  qed
  show ?thesis
  proof (cases "upload_source req")
    case (Inl r)
    then have "fst (uploadImage e req w) = r"
      using v by (simp add: uploadImage_def)
    with ok upload_source_Inl [OF Inl] show ?thesis by simp
  next
    case (Inr t)
    obtain src oname sz mt where t: "t = (src, oname, sz, mt)"
      by (cases t) auto
    let ?doc = "\<lparr>id_field = uuidv4 e, promptId = up_promptId req,
            promptName = string_of (up_promptName req),
            prompt = string_of (up_prompt req), base64Image = src,
            originalName = oname, size_field = sz, mimetype = mt,
            uploadedAt = Some (now e), createdAt = now e, updatedAt = Some (now e),
            type_field = None\<rparr>"
    show ?thesis
    proof (cases "writeDB Images ?doc w")
      case (Inl msg)
      then have "status (fst (uploadImage e req w)) = 500"
        using v Inr t by (simp add: uploadImage_def Let_def)
      with ok show ?thesis by simp
    next
      case wr: (Inr w')
      from writeDB_Images_Inr [OF wr] have
        c: "db_connected w" and fresh: "\<forall>x\<in>set (images w). id_field x \<noteq> uuidv4 e"
        and w': "w' = w\<lparr>images := images w @ [?doc]\<rparr>"
        by simp_all
      show ?thesis
        using v Inr t wr c fresh w' by (simp add: uploadImage_def Let_def)
    qed
  qed
qed

text \<open>
  Claim C9. When an upload answers 201, it has appended one record to the images
  collection whose image data is the data the upload built (the base64 body field, or the
  data URL made from the uploaded file), and fetching by the identity the upload returned
  answers 200 with exactly that record's image data.
\<close>

theorem C9_upload_roundtrip:
  "status (fst (uploadImage e req w)) = 201 \<longrightarrow>
     (\<exists>doc src oname sz mt.
        upload_source req = Inr (src, oname, sz, mt) \<and>
        images (snd (uploadImage e req w)) = images w @ [doc] \<and>
        base64Image doc = src \<and>
        id_field doc = data_id (payload (fst (uploadImage e req w))) \<and>
        status (getImageById (data_id (payload (fst (uploadImage e req w))))
                  (snd (uploadImage e req w))) = 200 \<and>
        image_base64Image (payload (getImageById (data_id (payload (fst (uploadImage e req w))))
                  (snd (uploadImage e req w)))) = base64Image doc)"
proof
  assume "status (fst (uploadImage e req w)) = 201"
  from uploadImage_201 [OF this] obtain src oname sz mt doc where
    us: "upload_source req = Inr (src, oname, sz, mt)"
    and doc: "doc = \<lparr>id_field = uuidv4 e, promptId = up_promptId req,
            promptName = string_of (up_promptName req),
            prompt = string_of (up_prompt req), base64Image = src,
            originalName = oname, size_field = sz, mimetype = mt,
            uploadedAt = Some (now e), createdAt = now e, updatedAt = Some (now e),
            type_field = None\<rparr>"
    and c: "db_connected w" and fresh: "\<forall>x\<in>set (images w). id_field x \<noteq> uuidv4 e"
    and w': "snd (uploadImage e req w) = w\<lparr>images := images w @ [doc]\<rparr>"
    and pl: "payload (fst (uploadImage e req w)) =
       UploadData (uuidv4 e) (string_of (up_promptId req)) (string_of (up_promptName req))
         (string_of (up_prompt req)) oname sz mt (now e)"
    by blast
  have idd: "id_field doc = uuidv4 e" and b64: "base64Image doc = src"
    by (simp_all add: doc)
  have fresh': "\<forall>x\<in>set (images w). id_field x \<noteq> id_field doc"
    using fresh by (simp add: idd)
  have get: "getImageById (uuidv4 e) (w\<lparr>images := images w @ [doc]\<rparr>) =
     \<lparr>status = 200, success = True, message = ''Image retrieved successfully'', error = None,
      payload = ImageData (id_field doc) (promptId doc) (promptName doc) (prompt doc)
                  (base64Image doc) (originalName doc) (size_field doc) (mimetype doc)
                  (uploadedAt doc)\<rparr>"
    using getImageById_after_insert [OF c fresh'] by (simp add: idd)
  have "upload_source req = Inr (src, oname, sz, mt) \<and>
        images (snd (uploadImage e req w)) = images w @ [doc] \<and>
        base64Image doc = src \<and>
        id_field doc = data_id (payload (fst (uploadImage e req w))) \<and>
        status (getImageById (data_id (payload (fst (uploadImage e req w))))
                  (snd (uploadImage e req w))) = 200 \<and>
        image_base64Image (payload (getImageById (data_id (payload (fst (uploadImage e req w))))
                  (snd (uploadImage e req w)))) = base64Image doc"
    by (simp add: us w' pl idd b64 get)
  then show "\<exists>doc src oname sz mt.
        upload_source req = Inr (src, oname, sz, mt) \<and>
        images (snd (uploadImage e req w)) = images w @ [doc] \<and>
        base64Image doc = src \<and>
        id_field doc = data_id (payload (fst (uploadImage e req w))) \<and>
        status (getImageById (data_id (payload (fst (uploadImage e req w))))
                  (snd (uploadImage e req w))) = 200 \<and>
        image_base64Image (payload (getImageById (data_id (payload (fst (uploadImage e req w))))
                  (snd (uploadImage e req w)))) = base64Image doc"
    by blast
qed


lemma file_upload_result:
  "uploadImage ok_env file_upload sunset_world =
     (\<lparr>status = 201, success = True,
       message = ''Image uploaded and converted to base64 successfully'', error = None,
       payload = UploadData ''gen-1'' ''p3'' ''Harbour'' ''a harbour at dawn''
                   ''harbour.png'' 7 ''image/png'' ''2024-01-01T00:00:00.000Z''\<rparr>,
      sunset_world\<lparr>images := images sunset_world @
        [\<lparr>id_field = ''gen-1'', promptId = Some ''p3'', promptName = ''Harbour'',
          prompt = ''a harbour at dawn'',
          base64Image = ''data:image/png;base64,SGFyYm91cg=='',
          originalName = ''harbour.png'', size_field = 7, mimetype = ''image/png'',
          uploadedAt = Some ''2024-01-01T00:00:00.000Z'',
          createdAt = ''2024-01-01T00:00:00.000Z'',
          updatedAt = Some ''2024-01-01T00:00:00.000Z'', type_field = None\<rparr>]\<rparr>)"
  by (simp add: uploadImage_def upload_source_def file_upload_def truthy_def string_of_def
      writeDB_def getDB_def insertOne_def collection_docs_def sunset_world_def upload_doc_def
      ok_env_fields Let_def)

theorem C9_witness:
  "status (fst (uploadImage ok_env file_upload sunset_world)) = 201 \<and>
   upload_source file_upload =
     Inr (''data:image/png;base64,SGFyYm91cg=='', ''harbour.png'', 7, ''image/png'') \<and>
   data_id (payload (fst (uploadImage ok_env file_upload sunset_world))) = ''gen-1'' \<and>
   status (getImageById ''gen-1'' (snd (uploadImage ok_env file_upload sunset_world))) = 200 \<and>
   image_base64Image (payload (getImageById ''gen-1''
       (snd (uploadImage ok_env file_upload sunset_world))))
     = ''data:image/png;base64,SGFyYm91cg==''"
proof -
  have h: "status (fst (uploadImage ok_env file_upload sunset_world)) = 201"
    by (simp add: file_upload_result)
  have us: "upload_source file_upload =
     Inr (''data:image/png;base64,SGFyYm91cg=='', ''harbour.png'', 7, ''image/png'')"
    by (simp add: upload_source_def file_upload_def)
  have i: "data_id (payload (fst (uploadImage ok_env file_upload sunset_world))) = ''gen-1''"
    by (simp add: file_upload_result)
  show ?thesis
    using h us i C9_upload_roundtrip [of ok_env file_upload sunset_world]
    by auto
qed

subsection \<open>The failure answers of the generation handlers\<close>

lemma service_generateImage_failure:
  "ImageGenerationService_generateImage e p r m = GenFailure err ty sg \<Longrightarrow> err \<noteq> ty"
  by (auto simp: ImageGenerationService_generateImage_def catch_generateImage_def
      split: sum.splits if_splits)

lemma service_generateImageFromText_failure:
  "ImageGenerationService_generateImageFromText e p = GenFailure err ty sg \<Longrightarrow> err \<noteq> ty"
  by (auto simp: ImageGenerationService_generateImageFromText_def
      catch_generateImageFromText_def split: sum.splits if_splits)

text \<open>The answers \<^verbatim>\<open>generateImage\<close> can give.\<close>

lemma generateImage_answers:
  "status (fst (generateImage e req w)) = 200 \<or>
   fst (generateImage e req w) =
     \<lparr>status = 400, success = False, message = ''promptId is required'', error = None,
      payload = Received (body req)\<rparr> \<or>
   fst (generateImage e req w) =
     \<lparr>status = 400, success = False, message = ''referenceImage is required'', error = None,
      payload = NoPayload\<rparr> \<or>
   fst (generateImage e req w) =
     \<lparr>status = 404, success = False, message = ''No prompt found with the provided promptId'',
      error = None,
      payload = NotFoundDebug (string_of (fst (request_inputs req))) (length (images w))
                  (listCollections e) (sample_of (images w))\<rparr> \<or>
   (\<exists>msg. fst (generateImage e req w) = internal_error msg) \<or>
   (\<exists>p r m err ty sg.
      ImageGenerationService_generateImage e p r m = GenFailure err ty sg \<and>
      fst (generateImage e req w) = generation_failed err)"
proof (cases "truthy (fst (request_inputs req)) \<and> truthy (fst (snd (request_inputs req)))")
  case False
  then show ?thesis
    by (cases "request_inputs req") (auto simp: generateImage_def)
next
  case v: True
  show ?thesis
  proof (cases "db_connected w")
    case False
    then have "fst (generateImage e req w) =
        internal_error ''Database not connected. Call connectDB() first.''"
      using v by (simp add: generateImage_disconnected)
    then show ?thesis by blast
  next
    case c: True
    show ?thesis
    proof (cases "filter (\<lambda>d. promptId d = fst (request_inputs req)) (images w)")
      case Nil
      then show ?thesis using v c by (simp add: generateImage_not_found)
    next
      case (Cons promptData rest)
      let ?res = "ImageGenerationService_generateImage e (prompt promptData)
                    (string_of (fst (snd (request_inputs req)))) (snd (snd (request_inputs req)))"
      note g = generateImage_found [of req w promptData rest e]
      show ?thesis
      proof (cases ?res)
        case (GenFailure err ty sg)
        then have "fst (generateImage e req w) = generation_failed err"
          using v c Cons by (simp add: g Let_def)
        with GenFailure show ?thesis by blast
      next
        case (GenSuccess imgs m t)
        then show ?thesis
          using v c Cons
          by (cases imgs) (auto simp: g Let_def save_generated_cases)
      qed
    qed
  qed
qed

lemma generateImageFromText_answers:
  "status (fst (generateImageFromText e req w)) = 200 \<or>
   fst (generateImageFromText e req w) =
     \<lparr>status = 400, success = False, message = ''prompt is required'', error = None,
      payload = NoPayload\<rparr> \<or>
   (\<exists>msg. fst (generateImageFromText e req w) = internal_error msg) \<or>
   (\<exists>p err ty sg.
      ImageGenerationService_generateImageFromText e p = GenFailure err ty sg \<and>
      fst (generateImageFromText e req w) = generation_failed err)"
proof (cases "truthy (body_prompt req)")
  case False
  then show ?thesis by (simp add: generateImageFromText_invalid)
next
  case v: True
  show ?thesis
  proof (cases "ImageGenerationService_generateImageFromText e (string_of (body_prompt req))")
    case (GenFailure err ty sg)
    then have "fst (generateImageFromText e req w) = generation_failed err"
      using v by (simp add: generateImageFromText_def Let_def)
    with GenFailure show ?thesis by blast
  next
    case (GenSuccess imgs m t)
    then show ?thesis
      using v
      by (cases imgs) (auto simp: generateImageFromText_def Let_def save_text_generated_cases)
  qed
qed

text \<open>
  Claim C5, as amended. The generation handlers answer 200, 400, 404 or 500. Every answer
  other than 200 has \<^verbatim>\<open>success: false\<close> and a non-empty message. The 400 and 404 answers
  have no \<^verbatim>\<open>error\<close> field; the 404 carries a \<^verbatim>\<open>debug\<close> object with the promptId searched
  for, the number of records, the collections and a sample record. A 500 answer carries in
  \<^verbatim>\<open>error\<close> the message of the caught exception or the error text of the gateway's
  failure result, which differs from that result's errorType.
\<close>

theorem C5_failure_envelope:
  "(status (fst (generateImage e req w)) \<noteq> 200 \<longrightarrow>
      \<not> success (fst (generateImage e req w)) \<and>
      message (fst (generateImage e req w)) \<noteq> [] \<and>
      (status (fst (generateImage e req w)) = 400 \<and> error (fst (generateImage e req w)) = None \<or>
       status (fst (generateImage e req w)) = 404 \<and> error (fst (generateImage e req w)) = None \<and>
         payload (fst (generateImage e req w)) =
           NotFoundDebug (string_of (fst (request_inputs req))) (length (images w))
             (listCollections e) (sample_of (images w)) \<or>
       status (fst (generateImage e req w)) = 500 \<and>
         ((\<exists>msg. fst (generateImage e req w) = internal_error msg) \<or>
          (\<exists>p r m err ty sg.
             ImageGenerationService_generateImage e p r m = GenFailure err ty sg \<and>
             error (fst (generateImage e req w)) = Some err \<and> err \<noteq> ty)))) \<and>
   (status (fst (generateImageFromText e treq w)) \<noteq> 200 \<longrightarrow>
      \<not> success (fst (generateImageFromText e treq w)) \<and>
      message (fst (generateImageFromText e treq w)) \<noteq> [] \<and>
      (status (fst (generateImageFromText e treq w)) = 400 \<and>
         error (fst (generateImageFromText e treq w)) = None \<or>
       status (fst (generateImageFromText e treq w)) = 500 \<and>
         ((\<exists>msg. fst (generateImageFromText e treq w) = internal_error msg) \<or>
          (\<exists>p err ty sg.
             ImageGenerationService_generateImageFromText e p = GenFailure err ty sg \<and>
             error (fst (generateImageFromText e treq w)) = Some err \<and> err \<noteq> ty))))"
proof (rule conjI; rule impI)
  assume n: "status (fst (generateImage e req w)) \<noteq> 200"
  from generateImage_answers [of e req w] n
  consider
    (a) "fst (generateImage e req w) =
     \<lparr>status = 400, success = False, message = ''promptId is required'', error = None,
      payload = Received (body req)\<rparr>"
  | (b) "fst (generateImage e req w) =
     \<lparr>status = 400, success = False, message = ''referenceImage is required'', error = None,
      payload = NoPayload\<rparr>"
  | (c) "fst (generateImage e req w) =
     \<lparr>status = 404, success = False, message = ''No prompt found with the provided promptId'',
      error = None,
      payload = NotFoundDebug (string_of (fst (request_inputs req))) (length (images w))
                  (listCollections e) (sample_of (images w))\<rparr>"
  | (d) msg where "fst (generateImage e req w) = internal_error msg"
  | (f) p r m err ty sg where
      "ImageGenerationService_generateImage e p r m = GenFailure err ty sg"
      "fst (generateImage e req w) = generation_failed err"
    by blast
  then show "\<not> success (fst (generateImage e req w)) \<and>
      message (fst (generateImage e req w)) \<noteq> [] \<and>
      (status (fst (generateImage e req w)) = 400 \<and> error (fst (generateImage e req w)) = None \<or>
       status (fst (generateImage e req w)) = 404 \<and> error (fst (generateImage e req w)) = None \<and>
         payload (fst (generateImage e req w)) =
           NotFoundDebug (string_of (fst (request_inputs req))) (length (images w))
             (listCollections e) (sample_of (images w)) \<or>
       status (fst (generateImage e req w)) = 500 \<and>
         ((\<exists>msg. fst (generateImage e req w) = internal_error msg) \<or>
          (\<exists>p r m err ty sg.
             ImageGenerationService_generateImage e p r m = GenFailure err ty sg \<and>
             error (fst (generateImage e req w)) = Some err \<and> err \<noteq> ty)))"
  proof cases
    case a then show ?thesis by simp
  next
    case b then show ?thesis by simp
  next
    case c then show ?thesis by simp
  next
    case d then show ?thesis by (simp add: internal_error_def)
  next
    case f
    from f(1) have ne: "err \<noteq> ty" by (rule service_generateImage_failure)
    have er: "error (fst (generateImage e req w)) = Some err"
      using f(2) by (simp add: generation_failed_def)
    from f(1) er ne have "\<exists>p r m err ty sg.
             ImageGenerationService_generateImage e p r m = GenFailure err ty sg \<and>
             error (fst (generateImage e req w)) = Some err \<and> err \<noteq> ty"
      by blast
    then show ?thesis using f(2) by (simp add: generation_failed_def)
  qed
next
  assume n: "status (fst (generateImageFromText e treq w)) \<noteq> 200"
  from generateImageFromText_answers [of e treq w] n
  consider
    (a) "fst (generateImageFromText e treq w) =
     \<lparr>status = 400, success = False, message = ''prompt is required'', error = None,
      payload = NoPayload\<rparr>"
  | (d) msg where "fst (generateImageFromText e treq w) = internal_error msg"
  | (f) p err ty sg where
      "ImageGenerationService_generateImageFromText e p = GenFailure err ty sg"
      "fst (generateImageFromText e treq w) = generation_failed err"
    by blast
  then show "\<not> success (fst (generateImageFromText e treq w)) \<and>
      message (fst (generateImageFromText e treq w)) \<noteq> [] \<and>
      (status (fst (generateImageFromText e treq w)) = 400 \<and>
         error (fst (generateImageFromText e treq w)) = None \<or>
       status (fst (generateImageFromText e treq w)) = 500 \<and>
         ((\<exists>msg. fst (generateImageFromText e treq w) = internal_error msg) \<or>
          (\<exists>p err ty sg.
             ImageGenerationService_generateImageFromText e p = GenFailure err ty sg \<and>
             error (fst (generateImageFromText e treq w)) = Some err \<and> err \<noteq> ty)))"
  proof cases
    case a then show ?thesis by simp
  next
    case d then show ?thesis by (simp add: internal_error_def)
  next
    case f
    from f(1) have ne: "err \<noteq> ty" by (rule service_generateImageFromText_failure)
    have er: "error (fst (generateImageFromText e treq w)) = Some err"
      using f(2) by (simp add: generation_failed_def)
    from f(1) er ne have "\<exists>p err ty sg.
             ImageGenerationService_generateImageFromText e p = GenFailure err ty sg \<and>
             error (fst (generateImageFromText e treq w)) = Some err \<and> err \<noteq> ty"
      by blast
    then show ?thesis using f(2) by (simp add: generation_failed_def)
  qed
qed

lemma ghost_generate:
  "generateImage ok_env (json_request (Some ''ghost'') (Some ''QUJD'')) sunset_world =
     (\<lparr>status = 404, success = False, message = ''No prompt found with the provided promptId'',
       error = None,
       payload = NotFoundDebug ''ghost'' 3 [''images'', ''generated_images'']
                   (Some (Some ''p1'', ''Sunset''))\<rparr>, sunset_world)"
proof -
  have ri: "request_inputs (json_request (Some ''ghost'') (Some ''QUJD''))
              = (Some ''ghost'', Some ''QUJD'', ''image/jpeg'')"
    by (simp add: request_inputs_def json_request_def is_json_def startsWith_def)
  show ?thesis
    by (simp add: generateImage_def ri truthy_def string_of_def getDB_def readDB_def
        collection_docs_def matches_def sunset_world_def upload_doc_def ok_env_fields
        sample_of_def Let_def)
qed

lemma quota_text_generate:
  "fst (generateImageFromText (failing_env ''429 Too Many Requests'')
         (text_request_of (Some ''a red fox'')) sunset_world) =
     \<lparr>status = 500, success = False, message = ''Image generation failed'',
      error = Some ''Quota exceeded: 429 Too Many Requests. Please check your billing and quota limits.'',
      payload = NoPayload\<rparr>"
  by (simp add: generateImageFromText_def text_request_of_def truthy_def string_of_def
      ImageGenerationService_generateImageFromText_def failing_env_try_generateImageFromText
      catch_generateImageFromText_def startsWith_def generation_failed_def Let_def)

text \<open>
  The claim as first stated asks for a code string in every failure answer. The 404 for
  the unknown promptId "ghost" and the 400 for an empty prompt have no \<^verbatim>\<open>error\<close> field.
\<close>

theorem C5_counterexample:
  "status (fst (generateImage ok_env (json_request (Some ''ghost'') (Some ''QUJD'')) sunset_world))
     = 404 \<and>
   error (fst (generateImage ok_env (json_request (Some ''ghost'') (Some ''QUJD'')) sunset_world))
     = None \<and>
   status (fst (generateImageFromText ok_env (text_request_of (Some [])) sunset_world)) = 400 \<and>
   error (fst (generateImageFromText ok_env (text_request_of (Some [])) sunset_world)) = None"
  by (simp add: ghost_generate generateImageFromText_def text_request_of_def truthy_def)

theorem C5_witness:
  "status (fst (generateImage ok_env (json_request (Some ''ghost'') (Some ''QUJD'')) sunset_world))
     = 404 \<and>
   payload (fst (generateImage ok_env (json_request (Some ''ghost'') (Some ''QUJD'')) sunset_world))
     = NotFoundDebug ''ghost'' 3 [''images'', ''generated_images''] (Some (Some ''p1'', ''Sunset'')) \<and>
   status (fst (generateImageFromText (failing_env ''429 Too Many Requests'')
         (text_request_of (Some ''a red fox'')) sunset_world)) = 500 \<and>
   error (fst (generateImageFromText (failing_env ''429 Too Many Requests'')
         (text_request_of (Some ''a red fox'')) sunset_world)) =
     Some ''Quota exceeded: 429 Too Many Requests. Please check your billing and quota limits.'' \<and>
   (\<exists>p err ty sg.
      ImageGenerationService_generateImageFromText (failing_env ''429 Too Many Requests'') p
        = GenFailure err ty sg \<and>
      error (fst (generateImageFromText (failing_env ''429 Too Many Requests'')
         (text_request_of (Some ''a red fox'')) sunset_world)) = Some err \<and> err \<noteq> ty)"
proof -
  have h1: "status (fst (generateImage ok_env (json_request (Some ''ghost'') (Some ''QUJD''))
              sunset_world)) \<noteq> 200"
    by (simp add: ghost_generate)
  have h2: "status (fst (generateImageFromText (failing_env ''429 Too Many Requests'')
         (text_request_of (Some ''a red fox'')) sunset_world)) \<noteq> 200"
    by (simp add: quota_text_generate)
  show ?thesis
    using h1 h2
      C5_failure_envelope [of ok_env "json_request (Some ''ghost'') (Some ''QUJD'')" sunset_world
        "text_request_of (Some ''a red fox'')"]
      C5_failure_envelope [of "failing_env ''429 Too Many Requests''"
        "json_request (Some ''ghost'') (Some ''QUJD'')" sunset_world
        "text_request_of (Some ''a red fox'')"]
    by (simp add: ghost_generate quota_text_generate internal_error_def)
qed

end
